theory Spec2Isabelle
  imports Complex_Main "HOL-Library.Word"
begin

chapter \<open>A retrieval-augmented generation service: chunker, retrieval index, cache, client\<close>

text \<open>
  A shallow embedding of the Go sources \<^verbatim>\<open>src/infrastructure/repository.go\<close> (both the
  LIKE-only version and the FTS5 version) and \<^verbatim>\<open>src/infrastructure/ai/client.go\<close>.
  A Go \<^verbatim>\<open>string\<close> is a sequence of bytes and is modelled as \<^typ>\<open>string\<close>
  (a list of 8-bit characters); \<^verbatim>\<open>len\<close> is \<^const>\<open>length\<close>. A Go \<^verbatim>\<open>int\<close> is modelled
  as \<^typ>\<open>int\<close>: every integer below is an index or a small counter, far from 64-bit
  wrap-around. A run-time panic is a value of type \<open>panic\<close>.
\<close>

datatype panic = IndexOutOfRange | SliceBoundsOutOfRange

section \<open>Chunker: \<^verbatim>\<open>splitIntoChunks\<close> and \<^verbatim>\<open>isBreakPoint\<close>\<close>

text \<open>
  \<^verbatim>\<open>isBreakPoint(r rune)\<close>: the switch over the nine break characters. The caller passes
  \<^verbatim>\<open>rune(text[end])\<close>, one byte widened to a rune, so the argument is a byte.
\<close>

definition isBreakPoint :: "char \<Rightarrow> bool" where
  "isBreakPoint r =
     (r = CHR ''.'' \<or> r = CHR ''!'' \<or> r = CHR ''?'' \<or> r = CHR '';'' \<or> r = CHR '':'' \<or>
      r = CHR '','' \<or> r = CHR '' '' \<or> r = CHR 0x0A \<or> r = CHR 0x09)"

text \<open>
  The inner loop \<^verbatim>\<open>for end > 0 && !isBreakPoint(rune(text[end])) { end-- }\<close>, started at
  \<^verbatim>\<open>end := chunkSize\<close>. Indexing a string beyond its length panics in Go.
\<close>

function scanBack :: "string \<Rightarrow> int \<Rightarrow> panic + int" where
  "scanBack text end =
     (if end > 0 then
        (if nat end < length text then
           (if \<not> isBreakPoint (text ! nat end) then scanBack text (end - 1) else Inr end)
         else Inl IndexOutOfRange)
      else Inr end)"
  by pat_completeness auto
termination
  by (relation "measure (\<lambda>(text, end). nat end)") auto

declare scanBack.simps [simp del]

text \<open>
  The outer loop \<^verbatim>\<open>for len(text) > 0 { ... }\<close> with the accumulated \<^verbatim>\<open>chunks\<close>. It is
  a partial function: \<open>None\<close> is a loop that never returns, \<open>Some (Inl p)\<close> a panic,
  \<open>Some (Inr chunks)\<close> the returned slice. The slice expression \<^verbatim>\<open>text[:end]\<close> panics
  when \<^verbatim>\<open>end\<close> is negative or exceeds \<^verbatim>\<open>len(text)\<close>.
\<close>

partial_function (option) splitLoop ::
  "string list \<Rightarrow> string \<Rightarrow> int \<Rightarrow> (panic + string list) option" where
  "splitLoop chunks text chunkSize =
     (if length text > 0 then
        (if int (length text) \<le> chunkSize then Some (Inr (chunks @ [text]))
         else
           (case scanBack text chunkSize of
              Inl p \<Rightarrow> Some (Inl p)
            | Inr e \<Rightarrow>
                (let end = (if e = 0 then chunkSize else e) in
                 if end < 0 \<or> int (length text) < end then Some (Inl SliceBoundsOutOfRange)
                 else splitLoop (chunks @ [take (nat end) text]) (drop (nat end) text) chunkSize)))
      else Some (Inr chunks))"

declare splitLoop.simps [code]

definition splitIntoChunks :: "string \<Rightarrow> int \<Rightarrow> (panic + string list) option" where
  "splitIntoChunks text chunkSize = splitLoop [] text chunkSize"


section \<open>Collaborators outside the repository\<close>

text \<open>
  The Go standard library and the SQLite engine are not code of this repository. Where a
  function has a byte-exact description it is defined below (\<open>Contains\<close>, \<open>Join\<close>,
  removal of single bytes by \<^verbatim>\<open>ReplaceAll\<close>); the Unicode-aware functions, the MD5 digest
  and the JSON decoder are taken as parameters, collected in the record \<open>golib\<close>, so every
  theorem below holds for whatever these functions compute. \<open>ascii_lib\<close> further down is
  one instance, exact on ASCII text, used to run the model on concrete inputs.
\<close>

record api_response =
  choices :: "string list"
  error_message :: string
  error_type :: string

datatype decoded = InvalidJSON | TypeMismatch | Decoded api_response

record golib =
  TrimSpace :: "string \<Rightarrow> string"
  Fields :: "string \<Rightarrow> string list"
  ToLower :: "string \<Rightarrow> string"
  md5_Sum :: "string \<Rightarrow> 128 word"
  json_Unmarshal :: "string \<Rightarrow> decoded"

text \<open>\<^verbatim>\<open>strings.Contains(s, substr)\<close>: \<open>substr\<close> occurs in \<open>s\<close> as a block of bytes.\<close>

fun Contains :: "string \<Rightarrow> string \<Rightarrow> bool" where
  "Contains [] substr = (substr = [])"
| "Contains (c # cs) substr = (take (length substr) (c # cs) = substr \<or> Contains cs substr)"

text \<open>\<^verbatim>\<open>strings.Join(elems, sep)\<close>.\<close>

fun Join :: "string list \<Rightarrow> string \<Rightarrow> string" where
  "Join [] sep = []"
| "Join [e] sep = e"
| "Join (e # es) sep = e @ sep @ Join es sep"

text \<open>The repository's own \<^verbatim>\<open>min(a, b int)\<close>.\<close>

definition min_int :: "int \<Rightarrow> int \<Rightarrow> int" where
  "min_int a b = (if a < b then a else b)"

text \<open>\<^verbatim>\<open>%d\<close> of a non-negative integer (the loop index of \<^verbatim>\<open>SaveDocument\<close>).\<close>

definition digit_char :: "nat \<Rightarrow> char" where
  "digit_char d = ''0123456789'' ! (d mod 10)"

function decimal :: "nat \<Rightarrow> string" where
  "decimal n = (if n < 10 then [digit_char n] else decimal (n div 10) @ [digit_char (n mod 10)])"
  by pat_completeness auto
termination
  by (relation "measure id") auto

declare decimal.simps [simp del]

text \<open>
  ASCII instances of the Unicode-aware functions: white space is the six ASCII white-space
  bytes, lower-casing maps \<^verbatim>\<open>A\<close>..\<^verbatim>\<open>Z\<close> to \<^verbatim>\<open>a\<close>..\<^verbatim>\<open>z\<close>.
\<close>

definition ascii_space :: "char \<Rightarrow> bool" where
  "ascii_space c =
     (c = CHR '' '' \<or> c = CHR 0x09 \<or> c = CHR 0x0A \<or> c = CHR 0x0B \<or> c = CHR 0x0C \<or> c = CHR 0x0D)"

definition ascii_TrimSpace :: "string \<Rightarrow> string" where
  "ascii_TrimSpace s = rev (dropWhile ascii_space (rev (dropWhile ascii_space s)))"

fun ascii_fields_loop :: "string \<Rightarrow> string \<Rightarrow> string list" where
  "ascii_fields_loop cur [] = (if cur = [] then [] else [cur])"
| "ascii_fields_loop cur (c # cs) =
     (if ascii_space c then (if cur = [] then [] else [cur]) @ ascii_fields_loop [] cs
      else ascii_fields_loop (cur @ [c]) cs)"

definition ascii_Fields :: "string \<Rightarrow> string list" where
  "ascii_Fields s = ascii_fields_loop [] s"

definition ascii_lower_char :: "char \<Rightarrow> char" where
  "ascii_lower_char c =
     (if (65::nat) \<le> of_char c \<and> of_char c \<le> (90::nat) then char_of (of_char c + (32::nat)) else c)"

definition ascii_ToLower :: "string \<Rightarrow> string" where
  "ascii_ToLower s = map ascii_lower_char s"

text \<open>
  A stand-in digest and decoder for running the model: the digest only has to be some
  function of the key data, and the decoder reads a body as one answer text, or as
  malformed when it is empty.
\<close>

definition toy_md5 :: "string \<Rightarrow> 128 word" where
  "toy_md5 s = word_of_nat (length s + sum_list (map (of_char :: char \<Rightarrow> nat) s))"

definition toy_json :: "string \<Rightarrow> decoded" where
  "toy_json body =
     (if body = [] then InvalidJSON
      else Decoded \<lparr>choices = [body], error_message = [], error_type = []\<rparr>)"

definition ascii_lib :: golib where
  "ascii_lib = \<lparr>TrimSpace = ascii_TrimSpace, Fields = ascii_Fields, ToLower = ascii_ToLower,
                 md5_Sum = toy_md5, json_Unmarshal = toy_json\<rparr>"

section \<open>Domain model (\<^verbatim>\<open>src/domain/models.go\<close>)\<close>

text \<open>
  \<^verbatim>\<open>Document.CreatedAt\<close> is never written by the store (the column takes its default) and
  is left out. \<^verbatim>\<open>float64\<close> is modelled as \<^typ>\<open>real\<close>: rounding, infinities and NaN are
  outside the model.
\<close>

record Document =
  doc_ID :: string
  doc_Title :: string
  doc_Content :: string

record Chunk =
  ID :: string
  DocumentID :: string
  Content :: string
  Similarity :: real


section \<open>Retrieval index (\<^verbatim>\<open>SQLiteDocumentRepository\<close>)\<close>

subsection \<open>The store and the SQL statements the repository issues\<close>

text \<open>
  The schema of \<^verbatim>\<open>initSchema\<close>: table \<^verbatim>\<open>documents(id PRIMARY KEY, title, content)\<close> and table
  \<^verbatim>\<open>chunks(id PRIMARY KEY, document_id, content)\<close>, each a list of rows in insertion order.
  In FTS5 mode the triggers of \<^verbatim>\<open>initSchema\<close> mirror every chunk row into the shadow table
  \<^verbatim>\<open>chunks_fts\<close>; the model takes the shadow table to hold exactly the rows of \<^verbatim>\<open>chunks\<close>.
\<close>

record chunk_row =
  row_id :: string
  row_document_id :: string
  row_content :: string

record store =
  documents_table :: "Document list"
  chunks_table :: "chunk_row list"

text \<open>
  What the SQLite engine decides: whether it rejects a statement (an FTS5 syntax error, a
  pattern that is too long, an I/O failure), the \<^verbatim>\<open>LIKE\<close> and \<^verbatim>\<open>MATCH\<close> predicates, and the
  \<^verbatim>\<open>bm25\<close> rank of a row for a match expression.
\<close>

datatype statement = AllChunks | ChunksLike "string list" | ChunksMatch string

record sqlite =
  rejects :: "statement \<Rightarrow> bool"
  like :: "string \<Rightarrow> string \<Rightarrow> bool"
  fts_match :: "string \<Rightarrow> string \<Rightarrow> bool"
  bm25 :: "string \<Rightarrow> chunk_row \<Rightarrow> real"

datatype query_error = QueryError | FTS5QueryError

text \<open>\<^verbatim>\<open>LIMIT ?\<close>: SQLite puts no upper bound on the rows when the limit is negative.\<close>

definition sql_limit :: "int \<Rightarrow> 'a list \<Rightarrow> 'a list" where
  "sql_limit limit rows = (if limit < 0 then rows else take (nat limit) rows)"

text \<open>\<^verbatim>\<open>rows.Scan(&chunk.ID, &chunk.DocumentID, &chunk.Content)\<close> into a zero-valued chunk.\<close>

definition scan_row :: "chunk_row \<Rightarrow> Chunk" where
  "scan_row r = \<lparr>ID = row_id r, DocumentID = row_document_id r, Content = row_content r,
                  Similarity = 0\<rparr>"

subsection \<open>\<^verbatim>\<open>SaveDocument\<close>\<close>

text \<open>
  \<^verbatim>\<open>SaveDocument\<close> runs in one transaction; \<^verbatim>\<open>defer tx.Rollback()\<close> undoes every insert
  on each error return, so an error returns the store as it was. An insert fails when the
  primary key is already present. \<open>io_fault\<close> names the one driver call, if any, that
  fails for a reason outside the data (the first failure ends the call).
\<close>

datatype io_fault =
    NoFault | BeginFault | PrepareDocFault | ExecDocFault
  | PrepareChunkFault nat | ExecChunkFault nat | CommitFault

datatype save_error =
    BeginFailed | PrepareDocumentFailed | InsertDocumentFailed
  | PrepareChunkFailed | InsertChunkFailed | CommitFailed

text \<open>
  The loop \<^verbatim>\<open>for i, chunkText := range chunks\<close> on the transaction's view \<open>tx\<close> of the
  store, with \<^verbatim>\<open>chunkID := fmt.Sprintf("%s_chunk_%d", doc.ID, i)\<close>.
\<close>

fun insertChunks :: "io_fault \<Rightarrow> string \<Rightarrow> store \<Rightarrow> nat \<Rightarrow> string list \<Rightarrow> save_error + store" where
  "insertChunks flt docID tx i [] = Inr tx"
| "insertChunks flt docID tx i (chunkText # rest) =
     (let chunkID = docID @ ''_chunk_'' @ decimal i in
      if flt = PrepareChunkFault i then Inl PrepareChunkFailed
      else if flt = ExecChunkFault i \<or> chunkID \<in> set (map row_id (chunks_table tx))
      then Inl InsertChunkFailed
      else insertChunks flt docID
             (tx\<lparr>chunks_table := chunks_table tx @
                [\<lparr>row_id = chunkID, row_document_id = docID, row_content = chunkText\<rparr>]\<rparr>)
             (i + 1) rest)"

text \<open>
  The result is \<open>None\<close> if the call never returns, \<open>Some (Inl p)\<close> if it panics (the deferred
  rollback still runs), and otherwise the returned \<^verbatim>\<open>error\<close> (\<open>None\<close> for \<^verbatim>\<open>nil\<close>) with the
  store after the call.
\<close>

definition SaveDocument ::
  "io_fault \<Rightarrow> store \<Rightarrow> Document \<Rightarrow> (panic + save_error option \<times> store) option" where
  "SaveDocument flt db doc =
     (if flt = BeginFault then Some (Inr (Some BeginFailed, db))
      else if flt = PrepareDocFault then Some (Inr (Some PrepareDocumentFailed, db))
      else if flt = ExecDocFault \<or> doc_ID doc \<in> set (map doc_ID (documents_table db))
      then Some (Inr (Some InsertDocumentFailed, db))
      else
        (let tx = db\<lparr>documents_table := documents_table db @ [doc]\<rparr> in
         case splitIntoChunks (doc_Content doc) 500 of
           None \<Rightarrow> None
         | Some (Inl p) \<Rightarrow> Some (Inl p)
         | Some (Inr chunkTexts) \<Rightarrow>
             (case insertChunks flt (doc_ID doc) tx 0 chunkTexts of
                Inl e \<Rightarrow> Some (Inr (Some e, db))
              | Inr tx' \<Rightarrow>
                  if flt = CommitFault then Some (Inr (Some CommitFailed, db))
                  else Some (Inr (None, tx')))))"

subsection \<open>Fallback ranking: \<^verbatim>\<open>findRelevantChunksLike\<close> and \<^verbatim>\<open>calculateSimpleSimilarity\<close>\<close>

definition calculateSimpleSimilarity :: "golib \<Rightarrow> string \<Rightarrow> string \<Rightarrow> real" where
  "calculateSimpleSimilarity L query content =
     (let queryWords = Fields L (ToLower L query);
          contentLower = ToLower L content;
          matches = length (filter (\<lambda>word. Contains contentLower word) queryWords)
      in if length queryWords = 0 then 0
         else real matches / real (length queryWords))"

text \<open>The loop \<^verbatim>\<open>for rows.Next()\<close> of the fallback search.\<close>

fun scanLike :: "golib \<Rightarrow> string \<Rightarrow> real \<Rightarrow> chunk_row list \<Rightarrow> Chunk list" where
  "scanLike L query threshold [] = []"
| "scanLike L query threshold (r # rows) =
     (let chunk = (scan_row r)\<lparr>Similarity := calculateSimpleSimilarity L query (row_content r)\<rparr>
      in (if threshold \<le> 0 \<or> Similarity chunk \<ge> threshold then [chunk] else [])
         @ scanLike L query threshold rows)"

text \<open>
  The three statements of the fallback search: no word, one word, several words joined by
  \<^verbatim>\<open>OR\<close>. This is also the body of \<^verbatim>\<open>FindRelevantChunks\<close> in the LIKE-only version of
  \<^verbatim>\<open>repository.go\<close>.
\<close>

definition findRelevantChunksLike ::
  "golib \<Rightarrow> sqlite \<Rightarrow> store \<Rightarrow> string \<Rightarrow> int \<Rightarrow> real \<Rightarrow> query_error + Chunk list" where
  "findRelevantChunksLike L S db query limit threshold =
     (let queryWords = Fields L query in
      if length queryWords = 0 then
        (if rejects S AllChunks then Inl QueryError
         else Inr (scanLike L query threshold (sql_limit limit (chunks_table db))))
      else if length queryWords = 1 then
        (let pattern = ''%'' @ queryWords ! 0 @ ''%'' in
         if rejects S (ChunksLike [pattern]) then Inl QueryError
         else Inr (scanLike L query threshold
                (sql_limit limit (filter (\<lambda>r. like S pattern (row_content r)) (chunks_table db)))))
      else
        (let params = map (\<lambda>word. ''%'' @ word @ ''%'') queryWords in
         if rejects S (ChunksLike params) then Inl QueryError
         else Inr (scanLike L query threshold
                (sql_limit limit
                   (filter (\<lambda>r. list_ex (\<lambda>pattern. like S pattern (row_content r)) params)
                      (chunks_table db))))))"

subsection \<open>Extension ranking: \<^verbatim>\<open>formatFTS5Query\<close> and \<^verbatim>\<open>findRelevantChunksFTS5\<close>\<close>

definition formatFTS5Query :: "golib \<Rightarrow> string \<Rightarrow> string" where
  "formatFTS5Query L query =
     (let words = Fields L (TrimSpace L query) in
      if length words = 0 then []
      else
        (let escapedWords =
               filter (\<lambda>cleaned. cleaned \<noteq> [])
                 (map (\<lambda>word. TrimSpace L
                         (filter (\<lambda>c. c \<noteq> CHR 0x5C)
                            (filter (\<lambda>c. c \<noteq> CHR 0x27) (filter (\<lambda>c. c \<noteq> CHR 0x22) word))))
                    words)
         in if length escapedWords = 0 then [] else Join escapedWords '' AND ''))"

text \<open>
  The ranked statement: rows of \<^verbatim>\<open>chunks\<close> that \<^verbatim>\<open>MATCH\<close> the expression, each with its
  \<^verbatim>\<open>bm25\<close> rank, \<^verbatim>\<open>ORDER BY rank_score\<close> (ascending), then \<^verbatim>\<open>LIMIT ?\<close>. The result is the
  slice \<^verbatim>\<open>tempResults\<close>.
\<close>

definition rankedRows :: "sqlite \<Rightarrow> store \<Rightarrow> string \<Rightarrow> int \<Rightarrow> (Chunk \<times> real) list" where
  "rankedRows S db ftsQuery limit =
     sql_limit limit
       (sort_key snd
          (map (\<lambda>r. (scan_row r, bm25 S ftsQuery r))
             (filter (\<lambda>r. fts_match S ftsQuery (row_content r)) (chunks_table db))))"

text \<open>
  The loop \<^verbatim>\<open>for _, result := range tempResults\<close>: the similarity from \<^verbatim>\<open>minRank\<close>,
  \<^verbatim>\<open>maxRank\<close> and the row's rank, then the threshold filter.
\<close>

fun normalizeLoop :: "real \<Rightarrow> real \<Rightarrow> real \<Rightarrow> (Chunk \<times> real) list \<Rightarrow> Chunk list" where
  "normalizeLoop minRank maxRank threshold [] = []"
| "normalizeLoop minRank maxRank threshold ((chunk, rankScore) # rest) =
     (let chunk' =
            (if maxRank = minRank then chunk\<lparr>Similarity := 1\<rparr>
             else chunk\<lparr>Similarity := (maxRank - rankScore) / (maxRank - minRank)\<rparr>)
      in (if threshold \<le> 0 \<or> Similarity chunk' \<ge> threshold then [chunk'] else [])
         @ normalizeLoop minRank maxRank threshold rest)"

definition normalizeRanks :: "real \<Rightarrow> (Chunk \<times> real) list \<Rightarrow> Chunk list" where
  "normalizeRanks threshold tempResults =
     (if length tempResults > 0 then
        (let minRank = snd (tempResults ! 0);
             maxRank = snd (tempResults ! (length tempResults - 1))
         in normalizeLoop minRank maxRank threshold tempResults)
      else [])"

text \<open>The loop of the empty-query branch: every row gets the similarity 0.5.\<close>

fun scanNeutral :: "real \<Rightarrow> chunk_row list \<Rightarrow> Chunk list" where
  "scanNeutral threshold [] = []"
| "scanNeutral threshold (r # rows) =
     (let chunk = (scan_row r)\<lparr>Similarity := 0.5\<rparr>
      in (if threshold \<le> 0 \<or> Similarity chunk \<ge> threshold then [chunk] else [])
         @ scanNeutral threshold rows)"

definition findRelevantChunksFTS5 ::
  "golib \<Rightarrow> sqlite \<Rightarrow> store \<Rightarrow> string \<Rightarrow> int \<Rightarrow> real \<Rightarrow> query_error + Chunk list" where
  "findRelevantChunksFTS5 L S db query limit threshold =
     (if TrimSpace L query = [] then
        (if rejects S AllChunks then Inl QueryError
         else Inr (scanNeutral threshold (sql_limit limit (chunks_table db))))
      else
        (let ftsQuery = formatFTS5Query L query in
         if ftsQuery = [] then Inr []
         else if rejects S (ChunksMatch ftsQuery) then Inl FTS5QueryError
         else Inr (normalizeRanks threshold (rankedRows S db ftsQuery limit))))"

text \<open>\<^verbatim>\<open>FindRelevantChunks\<close> of the FTS5 version dispatches on the flag set at start-up.\<close>

definition FindRelevantChunks ::
  "golib \<Rightarrow> sqlite \<Rightarrow> bool \<Rightarrow> store \<Rightarrow> string \<Rightarrow> int \<Rightarrow> real \<Rightarrow> query_error + Chunk list" where
  "FindRelevantChunks L S fts5Enabled db query limit threshold =
     (if fts5Enabled then findRelevantChunksFTS5 L S db query limit threshold
      else findRelevantChunksLike L S db query limit threshold)"

text \<open>The slice a caller receives: \<^verbatim>\<open>nil\<close>, of length 0, when the call returns an error.\<close>

definition returned :: "query_error + Chunk list \<Rightarrow> Chunk list" where
  "returned r = (case r of Inl e \<Rightarrow> [] | Inr cs \<Rightarrow> cs)"

text \<open>
  Min-max scaling as the specification words it: the most favourable (lowest) score of the
  result set maps to 1, the least favourable to 0, and every score maps to 1 when all
  scores are equal.
\<close>

definition minmax_similarity :: "real set \<Rightarrow> real \<Rightarrow> real" where
  "minmax_similarity scores x =
     (if Max scores = Min scores then 1 else (Max scores - x) / (Max scores - Min scores))"


section \<open>Response cache and generation client (\<^verbatim>\<open>ai/client.go\<close>)\<close>

subsection \<open>The file system under the cache directory\<close>

text \<open>
  Files are an association list from path to content with at most one entry per path.
  \<open>write_fails\<close> and \<open>remove_fails\<close> say for which paths \<^verbatim>\<open>os.WriteFile\<close> and
  \<^verbatim>\<open>os.Remove\<close> return an error (a failed call leaves the files as they were);
  \<^verbatim>\<open>os.ReadFile\<close> returns an error when the file does not exist.
\<close>

record fs =
  files :: "(string \<times> string) list"
  write_fails :: "string \<Rightarrow> bool"
  remove_fails :: "string \<Rightarrow> bool"

datatype io_error = WriteError | RemoveError

definition ReadFile :: "fs \<Rightarrow> string \<Rightarrow> string option" where
  "ReadFile f path = map_of (files f) path"

definition WriteFile :: "fs \<Rightarrow> string \<Rightarrow> string \<Rightarrow> io_error option \<times> fs" where
  "WriteFile f path data =
     (if write_fails f path then (Some WriteError, f)
      else (None, f\<lparr>files := (path, data) # filter (\<lambda>(p, d). p \<noteq> path) (files f)\<rparr>))"

definition Remove :: "fs \<Rightarrow> string \<Rightarrow> io_error option \<times> fs" where
  "Remove f path =
     (if remove_fails f path \<or> path \<notin> set (map fst (files f)) then (Some RemoveError, f)
      else (None, f\<lparr>files := filter (\<lambda>(p, d). p \<noteq> path) (files f)\<rparr>))"

text \<open>
  \<^verbatim>\<open>filepath.Join(dir, name)\<close> for a clean directory path and a name without a path
  separator, which is what the client passes: its keys are hexadecimal digests.
\<close>

definition filepath_Join :: "string \<Rightarrow> string \<Rightarrow> string" where
  "filepath_Join dir name = dir @ ''/'' @ name"

text \<open>
  \<^verbatim>\<open>filepath.Glob(filepath.Join(dir, "*.txt"))\<close>: the files directly in \<open>dir\<close> whose name
  ends in \<^verbatim>\<open>.txt\<close>; \<^verbatim>\<open>*\<close> matches any run of bytes other than the separator. The
  pattern built from the client's fixed directory is well formed, so the call has no error.
\<close>

definition glob_txt_match :: "string \<Rightarrow> string \<Rightarrow> bool" where
  "glob_txt_match dir path =
     (take (length dir + 1) path = dir @ ''/'' \<and>
      (let name = drop (length dir + 1) path
       in CHR ''/'' \<notin> set name \<and> 4 \<le> length name \<and> drop (length name - 4) name = ''.txt''))"

definition Glob_txt :: "fs \<Rightarrow> string \<Rightarrow> string list" where
  "Glob_txt f dir = filter (glob_txt_match dir) (map fst (files f))"

subsection \<open>The client and its cache\<close>

text \<open>
  Of \<^verbatim>\<open>AIClient\<close> the model keeps the cache directory and the retry budget; the success
  return of \<^verbatim>\<open>NewAIClient\<close> fixes them to \<^verbatim>\<open>cache/ai\<close> and 3. Sleeping (back-off,
  \<^verbatim>\<open>Retry-After\<close>), durations and the text of log lines have no effect on what is
  returned and are not modelled.
\<close>

record AIClient =
  cacheDir :: string
  maxRetries :: int

definition NewAIClient :: AIClient where
  "NewAIClient = \<lparr>cacheDir = ''cache/ai'', maxRetries = 3\<rparr>"

record RequestMetrics =
  Status :: int
  Retries :: int
  FromCache :: bool

definition sanitizeInput :: "golib \<Rightarrow> string \<Rightarrow> int \<Rightarrow> string" where
  "sanitizeInput L input maxLength =
     (let cleaned = TrimSpace L input;
          cleaned = filter (\<lambda>c. c \<noteq> CHR 0x00) cleaned
      in if maxLength > 0 \<and> int (length cleaned) > maxLength then take (nat maxLength) cleaned
         else cleaned)"

text \<open>\<^verbatim>\<open>fmt.Sprintf("%x", hash)\<close> of the 16-byte digest: 32 lower-case hexadecimal digits.\<close>

definition hex_digit :: "nat \<Rightarrow> char" where
  "hex_digit d = ''0123456789abcdef'' ! (d mod 16)"

definition hex128 :: "128 word \<Rightarrow> string" where
  "hex128 w = map (\<lambda>i. hex_digit (unat (drop_bit (4 * (31 - i)) w) mod 16)) [0..<32]"

text \<open>
  \<^verbatim>\<open>getCacheKey\<close>: the loop appends \<^verbatim>\<open>chunk.ID + chunk.Content[:min(100, len(chunk.Content))]\<close>
  to the key data, starting from the query.
\<close>

definition keyData :: "string \<Rightarrow> Chunk list \<Rightarrow> string" where
  "keyData query chunks =
     foldl (\<lambda>k chunk. k @ ID chunk @
              take (nat (min_int 100 (int (length (Content chunk))))) (Content chunk))
       query chunks"

definition getCacheKey :: "golib \<Rightarrow> string \<Rightarrow> Chunk list \<Rightarrow> string" where
  "getCacheKey L query chunks = hex128 (md5_Sum L (keyData query chunks))"

definition cacheFile :: "AIClient \<Rightarrow> string \<Rightarrow> string" where
  "cacheFile c cacheKey = filepath_Join (cacheDir c) (cacheKey @ ''.txt'')"

text \<open>
  \<^verbatim>\<open>getCachedResponse\<close>. On a hit the log line evaluates \<^verbatim>\<open>cacheKey[:8]\<close>, which panics
  for a key shorter than 8 bytes.
\<close>

definition getCachedResponse ::
  "golib \<Rightarrow> AIClient \<Rightarrow> fs \<Rightarrow> string \<Rightarrow> panic + string \<times> bool" where
  "getCachedResponse L c f cacheKey =
     (case ReadFile f (cacheFile c cacheKey) of
        None \<Rightarrow> Inr ([], False)
      | Some data \<Rightarrow>
          (let response = TrimSpace L data in
           if response = [] then Inr ([], False)
           else if length cacheKey < 8 then Inl SliceBoundsOutOfRange
           else Inr (response, True)))"

definition saveCachedResponse :: "AIClient \<Rightarrow> fs \<Rightarrow> string \<Rightarrow> string \<Rightarrow> io_error option \<times> fs" where
  "saveCachedResponse c f cacheKey response = WriteFile f (cacheFile c cacheKey) response"

text \<open>
  \<^verbatim>\<open>ClearCache\<close>: every file the glob finds is removed; a failed removal is logged and the
  loop goes on. The call returns \<^verbatim>\<open>nil\<close>.
\<close>

fun removeAll :: "fs \<Rightarrow> string list \<Rightarrow> fs" where
  "removeAll f [] = f"
| "removeAll f (file # rest) = removeAll (snd (Remove f file)) rest"

definition ClearCache :: "AIClient \<Rightarrow> fs \<Rightarrow> io_error option \<times> fs" where
  "ClearCache c f = (None, removeAll f (Glob_txt f (cacheDir c)))"

subsection \<open>\<^verbatim>\<open>parseAIResponse\<close> and the retry loop of \<^verbatim>\<open>GenerateResponse\<close>\<close>

datatype parse_error = InvalidJSONBody | DecodeError | APIErrorPayload string string
  | NoChoices | EmptyContent

definition parseAIResponse :: "golib \<Rightarrow> string \<Rightarrow> parse_error + string" where
  "parseAIResponse L body =
     (case json_Unmarshal L body of
        InvalidJSON \<Rightarrow> Inl InvalidJSONBody
      | TypeMismatch \<Rightarrow> Inl DecodeError
      | Decoded response \<Rightarrow>
          if error_message response \<noteq> [] then
            Inl (APIErrorPayload (error_message response) (error_type response))
          else if length (choices response) = 0 then Inl NoChoices
          else
            (let content = TrimSpace L (choices response ! 0) in
             if content = [] then Inl EmptyContent else Inr content))"

text \<open>
  What one attempt meets: the request cannot be built, the transport fails, the body
  cannot be read (the status is known), or a response arrives with status and body.
  The remote service is a script giving the outcome of each attempt; the request body is
  built once, before the loop, and is the same in every attempt.
\<close>

datatype attempt_outcome =
    RequestError | TransportFailure | BodyReadFailure int | HTTPResponse int string

datatype gen_error =
    ErrMarshal | ErrCreateRequest | ErrDoRequest | ErrReadBody | ErrParse parse_error
  | ErrRateLimit | ErrRateLimitFinal int
  | ErrServer int | ErrServerFinal int int string
  | ErrAPI int string

record environment =
  marshal_fails :: bool
  server :: "int \<Rightarrow> attempt_outcome"

text \<open>
  The loop \<^verbatim>\<open>for attempt := 0; attempt <= c.maxRetries; attempt++\<close>. The result is the
  returned pair (\<^verbatim>\<open>response\<close>, \<^verbatim>\<open>error\<close>), the metrics as logged at the return, and the
  file system. \<^verbatim>\<open>continue\<close> is the recursive call at \<open>attempt + 1\<close>; \<^verbatim>\<open>break\<close> and the
  end of the loop return the last error.
\<close>

function retryLoop ::
  "golib \<Rightarrow> AIClient \<Rightarrow> (int \<Rightarrow> attempt_outcome) \<Rightarrow> string \<Rightarrow> int \<Rightarrow> RequestMetrics \<Rightarrow>
   gen_error option \<Rightarrow> fs \<Rightarrow> (string \<times> gen_error option) \<times> RequestMetrics \<times> fs" where
  "retryLoop L c srv cacheKey attempt metrics lastErr f =
     (if attempt \<le> maxRetries c then
        (let metrics = metrics\<lparr>Retries := attempt\<rparr> in
         case srv attempt of
           RequestError \<Rightarrow>
             retryLoop L c srv cacheKey (attempt + 1) metrics (Some ErrCreateRequest) f
         | TransportFailure \<Rightarrow>
             if attempt < maxRetries c
             then retryLoop L c srv cacheKey (attempt + 1) metrics (Some ErrDoRequest) f
             else (([], Some ErrDoRequest), metrics, f)
         | BodyReadFailure status \<Rightarrow>
             (let metrics = metrics\<lparr>Status := status\<rparr> in
              if attempt < maxRetries c
              then retryLoop L c srv cacheKey (attempt + 1) metrics (Some ErrReadBody) f
              else (([], Some ErrReadBody), metrics, f))
         | HTTPResponse status body \<Rightarrow>
             (let metrics = metrics\<lparr>Status := status\<rparr> in
              if status = 200 then
                (case parseAIResponse L body of
                   Inl e \<Rightarrow>
                     if attempt < maxRetries c
                     then retryLoop L c srv cacheKey (attempt + 1) metrics (Some (ErrParse e)) f
                     else (([], Some (ErrParse e)), metrics, f)
                 | Inr response \<Rightarrow>
                     (let (saveErr, f') = saveCachedResponse c f cacheKey response
                      in ((response, None), metrics, f')))
              else if status = 429 then
                (if attempt < maxRetries c
                 then retryLoop L c srv cacheKey (attempt + 1) metrics (Some ErrRateLimit) f
                 else (([], Some (ErrRateLimitFinal (maxRetries c + 1))), metrics, f))
              else if status \<ge> 500 then
                (if attempt < maxRetries c
                 then retryLoop L c srv cacheKey (attempt + 1) metrics (Some (ErrServer status)) f
                 else (([], Some (ErrServerFinal status (maxRetries c + 1)
                                   (take (nat (min_int 200 (int (length body)))) body))),
                       metrics, f))
              else
                (([], Some (ErrAPI status (take (nat (min_int 200 (int (length body)))) body))),
                 metrics, f)))
      else (([], lastErr), metrics, f))"
  by pat_completeness auto
termination
  by (relation "measure (\<lambda>(L, c, srv, cacheKey, attempt, metrics, lastErr, f).
        nat (maxRetries c + 1 - attempt))") auto

declare retryLoop.simps [simp del]

text \<open>
  \<^verbatim>\<open>GenerateResponse\<close>: sanitize the query, look the fingerprint up in the cache, marshal
  the payload, run the retry loop. A panic of the cache lookup ends the call.
\<close>

definition GenerateResponse ::
  "golib \<Rightarrow> AIClient \<Rightarrow> environment \<Rightarrow> fs \<Rightarrow> string \<Rightarrow> Chunk list \<Rightarrow>
   panic + (string \<times> gen_error option) \<times> RequestMetrics \<times> fs" where
  "GenerateResponse L c E f query contextChunks =
     (let metrics = \<lparr>Status = 0, Retries = 0, FromCache = False\<rparr>;
          query = sanitizeInput L query 1000;
          cacheKey = getCacheKey L query contextChunks
      in case getCachedResponse L c f cacheKey of
           Inl p \<Rightarrow> Inl p
         | Inr (cached, found) \<Rightarrow>
             if found then Inr ((cached, None), metrics\<lparr>FromCache := True\<rparr>, f)
             else if marshal_fails E then Inr (([], Some ErrMarshal), metrics, f)
             else Inr (retryLoop L c (server E) cacheKey 0 metrics None f))"


section \<open>Concrete collaborators for running the model\<close>

text \<open>
  An empty cache directory on a file system where every write and removal succeeds, a
  remote service that answers from a finite script and is unreachable afterwards, and a
  small SQL engine: \<^verbatim>\<open>LIKE\<close> with a pattern \<^verbatim>\<open>%w%\<close> is containment of \<open>w\<close> ignoring ASCII
  case, \<^verbatim>\<open>MATCH\<close> is containment of the expression, and the rank of a row is minus the
  number of bytes \<^verbatim>\<open>e\<close> in its content.
\<close>

definition empty_fs :: fs where
  "empty_fs = \<lparr>files = [], write_fails = (\<lambda>path. False), remove_fails = (\<lambda>path. False)\<rparr>"

definition script :: "attempt_outcome list \<Rightarrow> int \<Rightarrow> attempt_outcome" where
  "script outcomes attempt =
     (if 0 \<le> attempt \<and> nat attempt < length outcomes then outcomes ! nat attempt
      else TransportFailure)"

definition toy_sqlite :: sqlite where
  "toy_sqlite =
     \<lparr>rejects = (\<lambda>stmt. False),
      like = (\<lambda>pattern content.
                Contains (ascii_ToLower content)
                  (ascii_ToLower (filter (\<lambda>c. c \<noteq> CHR ''%'') pattern))),
      fts_match = (\<lambda>expr content. Contains content expr),
      bm25 = (\<lambda>expr r. - real (length (filter (\<lambda>c. c = CHR ''e'') (row_content r))))\<rparr>"

text \<open>A store holding three short documents, each with its single chunk.\<close>

definition example_store :: store where
  "example_store =
     \<lparr>documents_table =
        [\<lparr>doc_ID = ''d1'', doc_Title = ''one'', doc_Content = ''the''\<rparr>,
         \<lparr>doc_ID = ''d2'', doc_Title = ''two'', doc_Content = ''tree''\<rparr>,
         \<lparr>doc_ID = ''d3'', doc_Title = ''three'', doc_Content = ''eleven e''\<rparr>],
      chunks_table =
        [\<lparr>row_id = ''d1_chunk_0'', row_document_id = ''d1'', row_content = ''the''\<rparr>,
         \<lparr>row_id = ''d2_chunk_0'', row_document_id = ''d2'', row_content = ''tree''\<rparr>,
         \<lparr>row_id = ''d3_chunk_0'', row_document_id = ''d3'', row_content = ''eleven e''\<rparr>]\<rparr>"

section \<open>Properties of the chunker\<close>

lemma scanBack_neg: "n \<le> 0 \<Longrightarrow> scanBack s n = Inr n"
  by (subst scanBack.simps) simp

lemma scanBack_window:
  "0 \<le> n \<Longrightarrow> n < int (length s) \<Longrightarrow>
   \<exists>e. scanBack s n = Inr e \<and> 0 \<le> e \<and> e \<le> n \<and>
       (0 < e \<longrightarrow> isBreakPoint (s ! nat e)) \<and>
       (\<forall>i. e < i \<and> i \<le> n \<longrightarrow> \<not> isBreakPoint (s ! nat i))"
proof (induction s n rule: scanBack.induct)
  case (1 s n)
  show ?case
  proof (cases "0 < n \<and> \<not> isBreakPoint (s ! nat n)")
    case True
    with "1.prems" have "0 \<le> n - 1" "n - 1 < int (length s)" "nat n < length s"
      by auto
    with "1.IH" True obtain e where e: "scanBack s (n - 1) = Inr e" "0 \<le> e" "e \<le> n - 1"
      "0 < e \<longrightarrow> isBreakPoint (s ! nat e)"
      "\<forall>i. e < i \<and> i \<le> n - 1 \<longrightarrow> \<not> isBreakPoint (s ! nat i)"
      by blast
    have "scanBack s n = Inr e"
      using True \<open>nat n < length s\<close> e(1) by (subst scanBack.simps) simp
    moreover have "\<forall>i. e < i \<and> i \<le> n \<longrightarrow> \<not> isBreakPoint (s ! nat i)"
    proof (intro allI impI)
      fix i assume "e < i \<and> i \<le> n"
      then show "\<not> isBreakPoint (s ! nat i)"
        using e(5) True by (cases "i = n") auto
    qed
    ultimately show ?thesis using e(2,3,4) by auto
  next
    case False
    with "1.prems" have "scanBack s n = Inr n"
      by (subst scanBack.simps) auto
    with False "1.prems" show ?thesis by auto
  qed
qed

lemma scanBack_no_break:
  assumes "0 \<le> n" "n < int (length s)"
    and "\<forall>i. 1 \<le> i \<and> i \<le> nat n \<longrightarrow> \<not> isBreakPoint (s ! i)"
  shows "scanBack s n = Inr 0"
proof -
  from scanBack_window [OF assms(1,2)] obtain e where
    e: "scanBack s n = Inr e" "0 \<le> e" "e \<le> n" "0 < e \<longrightarrow> isBreakPoint (s ! nat e)"
    by blast
  have "e = 0"
  proof (rule ccontr)
    assume "e \<noteq> 0"
    with e have "0 < e" "1 \<le> nat e" "nat e \<le> nat n" by auto
    with assms(3) e(4) show False by blast
  qed
  with e(1) show ?thesis by simp
qed

text \<open>
  One iteration of the outer loop on a text longer than the target: the cut \<open>e\<close> lies
  between 1 and the target, and it is the target when the window has no break character.
\<close>

lemma splitLoop_step:
  assumes "1 \<le> n" "n < int (length s)"
  shows "\<exists>e. 1 \<le> e \<and> e \<le> n \<and>
            (\<forall>acc. splitLoop acc s n = splitLoop (acc @ [take (nat e) s]) (drop (nat e) s) n) \<and>
            ((\<forall>i. 1 \<le> i \<and> i \<le> nat n \<longrightarrow> \<not> isBreakPoint (s ! i)) \<longrightarrow> e = n)"
proof -
  from assms have n0: "0 \<le> n" by simp
  from scanBack_window [OF n0 assms(2)] obtain e0 where
    e0: "scanBack s n = Inr e0" "0 \<le> e0" "e0 \<le> n" by blast
  define e where "e = (if e0 = 0 then n else e0)"
  have e: "1 \<le> e" "e \<le> n" using e0 assms by (auto simp: e_def)
  have "splitLoop acc s n = splitLoop (acc @ [take (nat e) s]) (drop (nat e) s) n" for acc
    using assms e e0(1) by (subst splitLoop.simps) (auto simp: e_def Let_def)
  moreover have "e = n" if "\<forall>i. 1 \<le> i \<and> i \<le> nat n \<longrightarrow> \<not> isBreakPoint (s ! i)"
    using scanBack_no_break [OF n0 assms(2) that] e0(1) by (simp add: e_def)
  ultimately show ?thesis using e by blast
qed

text \<open>
  Total correctness of the loop for a target of at least 1, by induction on the length of
  the remaining text: the loop returns the accumulated chunks followed by non-empty
  fragments, none longer than the target, whose concatenation is the text.
\<close>

lemma splitLoop_total:
  assumes "1 \<le> n"
  shows "\<exists>cs. (\<forall>acc. splitLoop acc s n = Some (Inr (acc @ cs))) \<and> concat cs = s \<and>
              (\<forall>c \<in> set cs. c \<noteq> [] \<and> int (length c) \<le> n)"
proof (induction "length s" arbitrary: s rule: less_induct)
  case less
  show ?case
  proof (cases "int (length s) \<le> n")
    case True
    show ?thesis
    proof (cases "s = []")
      case True
      then have "\<forall>acc. splitLoop acc s n = Some (Inr (acc @ []))"
        by (subst splitLoop.simps) simp
      with True show ?thesis by (intro exI [of _ "[]"]) simp
    next
      case False
      with True have "\<forall>acc. splitLoop acc s n = Some (Inr (acc @ [s]))"
        by (subst splitLoop.simps) simp
      with True False show ?thesis by (intro exI [of _ "[s]"]) simp
    qed
  next
    case False
    then have long: "n < int (length s)" by simp
    from splitLoop_step [OF assms long] obtain e where
      e: "1 \<le> e" "e \<le> n"
         "\<forall>acc. splitLoop acc s n = splitLoop (acc @ [take (nat e) s]) (drop (nat e) s) n"
      by blast
    from e long have "length (drop (nat e) s) < length s" by simp
    from less [OF this] obtain cs where
      cs: "\<forall>acc. splitLoop acc (drop (nat e) s) n = Some (Inr (acc @ cs))"
          "concat cs = drop (nat e) s" "\<forall>c \<in> set cs. c \<noteq> [] \<and> int (length c) \<le> n"
      by blast
    have "\<forall>acc. splitLoop acc s n = Some (Inr (acc @ take (nat e) s # cs))"
      using e(3) cs(1) by simp
    moreover have "concat (take (nat e) s # cs) = s"
      using cs(2) by simp
    moreover have "\<forall>c \<in> set (take (nat e) s # cs). c \<noteq> [] \<and> int (length c) \<le> n"
      using cs(3) e long by auto
    ultimately show ?thesis by blast
  qed
qed

text \<open>
  With target 0 the hard cut is at 0: the loop appends the empty fragment and goes on with
  the same text, so whenever it returns, the text was empty.
\<close>

lemma splitLoop_zero_diverges:
  assumes "splitLoop acc s n = Some y"
  shows "n = 0 \<longrightarrow> s = []"
proof (rule splitLoop.raw_induct [where P = "\<lambda>acc s n y. n = 0 \<longrightarrow> s = []", OF _ assms])
  fix f :: "string list \<Rightarrow> string \<Rightarrow> int \<Rightarrow> (panic + string list) option"
    and chunks s chunkSize y
  assume IH: "\<And>a b c d. f a b c = Some d \<Longrightarrow> c = 0 \<longrightarrow> b = []"
    and body: "(if length s > 0 then
        (if int (length s) \<le> chunkSize then Some (Inr (chunks @ [s]))
         else
           (case scanBack s chunkSize of
              Inl p \<Rightarrow> Some (Inl p)
            | Inr e \<Rightarrow>
                (let end = (if e = 0 then chunkSize else e) in
                 if end < 0 \<or> int (length s) < end then Some (Inl SliceBoundsOutOfRange)
                 else f (chunks @ [take (nat end) s]) (drop (nat end) s) chunkSize)))
      else Some (Inr chunks)) = Some y"
  show "chunkSize = 0 \<longrightarrow> s = []"
  proof (intro impI, rule ccontr)
    assume z: "chunkSize = 0" and ne: "s \<noteq> []"
    with body have "f (chunks @ [[]]) s 0 = Some y"
      by (simp add: scanBack_neg)
    from IH [OF this] ne show False by simp
  qed
qed

lemma splitLoop_negative_panics:
  "n < 0 \<Longrightarrow> s \<noteq> [] \<Longrightarrow> splitLoop acc s n = Some (Inl SliceBoundsOutOfRange)"
  by (subst splitLoop.simps) (simp add: scanBack_neg)

lemma splitLoop_empty: "splitLoop acc [] n = Some (Inr acc)"
  by (subst splitLoop.simps) simp

lemma splitIntoChunks_total:
  assumes "1 \<le> n"
  shows "\<exists>cs. splitIntoChunks s n = Some (Inr cs) \<and> concat cs = s \<and>
              (\<forall>c \<in> set cs. c \<noteq> [] \<and> int (length c) \<le> n)"
  using splitLoop_total [OF assms, of s] unfolding splitIntoChunks_def
  by (metis append_Nil)

lemma splitIntoChunks_returns:
  assumes "splitIntoChunks s n = Some (Inr cs)"
  shows "concat cs = s \<and> (\<forall>c \<in> set cs. int (length c) \<le> n)"
proof (cases "1 \<le> n")
  case True
  from splitIntoChunks_total [OF True, of s] assms show ?thesis by auto
next
  case False
  have "s = []"
  proof (rule ccontr)
    assume ne: "s \<noteq> []"
    show False
    proof (cases "n = 0")
      case True
      with splitLoop_zero_diverges [of "[]" s n "Inr cs"] assms ne show False
        by (simp add: splitIntoChunks_def)
    next
      case False
      with \<open>\<not> 1 \<le> n\<close> have "n < 0" by simp
      from splitLoop_negative_panics [OF this ne, of "[]"] assms show False
        by (simp add: splitIntoChunks_def)
    qed
  qed
  with assms show ?thesis by (simp add: splitIntoChunks_def splitLoop_empty)
qed

lemma splitIntoChunks_hard_cut:
  assumes "1 \<le> n" "n < int (length s)"
    and "\<forall>i. 1 \<le> i \<and> i \<le> nat n \<longrightarrow> \<not> isBreakPoint (s ! i)"
  shows "\<exists>rest. splitIntoChunks s n = Some (Inr (take (nat n) s # rest)) \<and>
                splitIntoChunks (drop (nat n) s) n = Some (Inr rest)"
proof -
  from splitLoop_step [OF assms(1,2)] assms(3) have
    step: "\<forall>acc. splitLoop acc s n = splitLoop (acc @ [take (nat n) s]) (drop (nat n) s) n"
    by auto
  from splitLoop_total [OF assms(1), of "drop (nat n) s"] obtain rest where
    rest: "\<forall>acc. splitLoop acc (drop (nat n) s) n = Some (Inr (acc @ rest))" by blast
  have "splitIntoChunks s n = Some (Inr (take (nat n) s # rest))"
    using step rest by (simp add: splitIntoChunks_def)
  moreover have "splitIntoChunks (drop (nat n) s) n = Some (Inr rest)"
    using rest by (simp add: splitIntoChunks_def)
  ultimately show ?thesis by blast
qed

text \<open>
  C1. For every text and every target size, the fragments that \<open>splitIntoChunks\<close> returns
  concatenate to the text exactly and none is longer than the target (in bytes); for every
  target of at least 1 the call does return its fragments; and when the text is longer
  than the target and the lookback window (positions target down to 1) holds no break
  character, the first fragment is cut at exactly the target and the loop goes on with the
  rest.
\<close>

theorem split_lossless_bounded:
  "(splitIntoChunks s n = Some (Inr cs) \<longrightarrow>
      concat cs = s \<and> (\<forall>c \<in> set cs. int (length c) \<le> n)) \<and>
   (1 \<le> n \<longrightarrow> (\<exists>cs'. splitIntoChunks s n = Some (Inr cs'))) \<and>
   (splitIntoChunks s n = Some (Inr cs) \<and> s \<noteq> [] \<and> n < int (length s) \<and>
      (\<forall>i. 1 \<le> i \<and> i \<le> nat n \<longrightarrow> \<not> isBreakPoint (s ! i)) \<longrightarrow>
      (\<exists>rest. cs = take (nat n) s # rest \<and>
              splitIntoChunks (drop (nat n) s) n = Some (Inr rest)))"
proof (intro conjI impI)
  assume "splitIntoChunks s n = Some (Inr cs)"
  from splitIntoChunks_returns [OF this]
  show "concat cs = s" and "\<forall>c \<in> set cs. int (length c) \<le> n" by simp_all
next
  assume "1 \<le> n"
  from splitIntoChunks_total [OF this, of s]
  show "\<exists>cs'. splitIntoChunks s n = Some (Inr cs')" by blast
next
  assume a: "splitIntoChunks s n = Some (Inr cs) \<and> s \<noteq> [] \<and> n < int (length s) \<and>
    (\<forall>i. 1 \<le> i \<and> i \<le> nat n \<longrightarrow> \<not> isBreakPoint (s ! i))"
  have "1 \<le> n"
  proof (rule ccontr)
    assume "\<not> 1 \<le> n"
    then consider "n = 0" | "n < 0" by linarith
    then show False
    proof cases
      case 1
      with splitLoop_zero_diverges [of "[]" s n "Inr cs"] a show False
        by (simp add: splitIntoChunks_def)
    next
      case 2
      with splitLoop_negative_panics [of n s "[]"] a show False
        by (simp add: splitIntoChunks_def)
    qed
  qed
  with a splitIntoChunks_hard_cut [of n s] obtain rest where
    "splitIntoChunks s n = Some (Inr (take (nat n) s # rest))"
    "splitIntoChunks (drop (nat n) s) n = Some (Inr rest)"
    by blast
  with a show "\<exists>rest. cs = take (nat n) s # rest \<and>
              splitIntoChunks (drop (nat n) s) n = Some (Inr rest)"
    by simp
qed

theorem split_lossless_bounded_witness:
  "splitIntoChunks ''abcdefgh'' 3 = Some (Inr [''abc'', ''def'', ''gh'']) \<and>
   concat [''abc'', ''def'', ''gh''] = ''abcdefgh'' \<and>
   length ''abc'' \<le> 3 \<and> length ''def'' \<le> 3 \<and> length ''gh'' \<le> 3 \<and>
   splitIntoChunks ''defgh'' 3 = Some (Inr [''def'', ''gh''])"
proof -
  have run: "splitIntoChunks ''abcdefgh'' 3 = Some (Inr [''abc'', ''def'', ''gh''])"
    by code_simp
  have window: "\<forall>i. 1 \<le> i \<and> i \<le> nat 3 \<longrightarrow> \<not> isBreakPoint (''abcdefgh'' ! i)"
  proof (intro allI impI)
    fix i :: nat
    assume "1 \<le> i \<and> i \<le> nat 3"
    then have "i = 1 \<or> i = 2 \<or> i = 3" by auto
    then show "\<not> isBreakPoint (''abcdefgh'' ! i)"
      by (auto simp: isBreakPoint_def)
  qed
  from split_lossless_bounded [of "''abcdefgh''" 3 "[''abc'', ''def'', ''gh'']"] run window
  show ?thesis by simp
qed

text \<open>
  C5 as stated fails: chunking \<^verbatim>\<open>"A cat sat on a mat."\<close> at target size 6 does not yield
  \<^verbatim>\<open>["A cat ", "sat on ", "a mat."]\<close>. The scan starts at \<^verbatim>\<open>text[6]\<close> and the cut is made
  before the break character, which opens the next fragment.
\<close>

theorem cat_mat_fragments_counterexample:
  "splitIntoChunks ''A cat sat on a mat.'' 6 \<noteq> Some (Inr [''A cat '', ''sat on '', ''a mat.''])"
proof -
  have "splitIntoChunks ''A cat sat on a mat.'' 6 =
      Some (Inr [''A cat'', '' sat'', '' on a'', '' mat.''])"
    by code_simp
  then show ?thesis by simp
qed

text \<open>
  C5, amended. Chunking \<^verbatim>\<open>"A cat sat on a mat."\<close> at target size 6 yields exactly
  \<^verbatim>\<open>["A cat", " sat", " on a", " mat."]\<close>, and whatever fragments a call returns, their
  concatenation is the text.
\<close>

theorem cat_mat_fragments:
  "splitIntoChunks ''A cat sat on a mat.'' 6 =
     Some (Inr [''A cat'', '' sat'', '' on a'', '' mat.'']) \<and>
   (splitIntoChunks s n = Some (Inr cs) \<longrightarrow> concat cs = s)"
proof
  show "splitIntoChunks ''A cat sat on a mat.'' 6 =
      Some (Inr [''A cat'', '' sat'', '' on a'', '' mat.''])"
    by code_simp
  show "splitIntoChunks s n = Some (Inr cs) \<longrightarrow> concat cs = s"
    using splitIntoChunks_returns by blast
qed

theorem cat_mat_fragments_witness:
  "splitIntoChunks ''one, two'' 4 = Some (Inr [''one,'', '' two'']) \<and>
   concat [''one,'', '' two''] = ''one, two''"
proof -
  have run: "splitIntoChunks ''one, two'' 4 = Some (Inr [''one,'', '' two''])"
    by code_simp
  from cat_mat_fragments [of "''one, two''" 4 "[''one,'', '' two'']"] run
  show ?thesis by simp
qed

text \<open>
  C8 as stated fails: \<open>splitIntoChunks\<close> does not return on every input. With target size
  0 and a non-empty text the hard cut is made at 0, the text stays as it is, and the loop
  never ends.
\<close>

theorem split_terminates_counterexample: "splitIntoChunks ''a'' 0 = None"
proof (cases "splitIntoChunks ''a'' 0")
  case None
  then show ?thesis .
next
  case (Some y)
  with splitLoop_zero_diverges [of "[]" "''a''" 0 y] show ?thesis
    by (simp add: splitIntoChunks_def)
qed

text \<open>
  C8, amended. \<open>splitIntoChunks\<close> returns its fragments for every text when the target
  size is at least 1 (the store calls it with 500), and for the empty text at every target
  size. With target size 0 and a non-empty text it never returns; with a negative target
  size and a non-empty text the slice expression panics.
\<close>

theorem split_terminates:
  "(1 \<le> n \<longrightarrow> (\<exists>cs. splitIntoChunks s n = Some (Inr cs))) \<and>
   splitIntoChunks [] n = Some (Inr []) \<and>
   (n = 0 \<and> s \<noteq> [] \<longrightarrow> splitIntoChunks s n = None) \<and>
   (n < 0 \<and> s \<noteq> [] \<longrightarrow> splitIntoChunks s n = Some (Inl SliceBoundsOutOfRange))"
proof (intro conjI impI)
  assume "1 \<le> n"
  from splitIntoChunks_total [OF this, of s]
  show "\<exists>cs. splitIntoChunks s n = Some (Inr cs)" by blast
next
  show "splitIntoChunks [] n = Some (Inr [])"
    by (simp add: splitIntoChunks_def splitLoop_empty)
next
  assume a: "n = 0 \<and> s \<noteq> []"
  show "splitIntoChunks s n = None"
  proof (cases "splitIntoChunks s n")
    case None
    then show ?thesis .
  next
    case (Some y)
    with splitLoop_zero_diverges [of "[]" s n y] a show ?thesis
      by (simp add: splitIntoChunks_def)
  qed
next
  assume "n < 0 \<and> s \<noteq> []"
  then show "splitIntoChunks s n = Some (Inl SliceBoundsOutOfRange)"
    by (simp add: splitIntoChunks_def splitLoop_negative_panics)
qed

theorem split_terminates_witness:
  "(\<exists>cs. splitIntoChunks ''abcdefgh'' 3 = Some (Inr cs)) \<and>
   splitIntoChunks ''ab'' 0 = None \<and>
   splitIntoChunks ''ab'' (- 1) = Some (Inl SliceBoundsOutOfRange)"
  using split_terminates [of 3 "''abcdefgh''"] split_terminates [of 0 "''ab''"]
    split_terminates [of "- 1" "''ab''"]
  by simp

section \<open>Properties of the store\<close>

text \<open>
  \<open>SaveDocument\<close> always returns, without a panic: the chunker is called with the target
  500. When it returns an error, the store is the one from before the call.
\<close>

lemma SaveDocument_returns: "\<exists>err db'. SaveDocument flt db doc = Some (Inr (err, db'))"
proof -
  from splitIntoChunks_total [of 500 "doc_Content doc"] obtain cs where
    "splitIntoChunks (doc_Content doc) 500 = Some (Inr cs)" by auto
  then show ?thesis
    by (simp add: SaveDocument_def Let_def split: sum.splits)
qed

lemma SaveDocument_error_unchanged:
  "SaveDocument flt db doc = Some (Inr (Some e, db')) \<Longrightarrow> db' = db"
  by (auto simp: SaveDocument_def Let_def split: if_splits option.splits sum.splits)

text \<open>
  C10. Saving a document whose ID is already in the \<^verbatim>\<open>documents\<close> table returns an error
  and leaves the store as it was: both tables are those from before the call. The error
  is that of the document insert unless the driver already failed to begin the
  transaction or to prepare the statement.
\<close>

theorem save_duplicate_rolls_back:
  assumes "doc_ID doc \<in> set (map doc_ID (documents_table db))"
  shows "SaveDocument flt db doc =
           Some (Inr (Some (if flt = BeginFault then BeginFailed
                            else if flt = PrepareDocFault then PrepareDocumentFailed
                            else InsertDocumentFailed), db))"
  using assms by (simp add: SaveDocument_def)

theorem save_duplicate_rolls_back_witness:
  "SaveDocument NoFault \<lparr>documents_table = [], chunks_table = []\<rparr>
     \<lparr>doc_ID = ''d1'', doc_Title = ''T'', doc_Content = ''Hello.''\<rparr> =
     Some (Inr (None,
       \<lparr>documents_table = [\<lparr>doc_ID = ''d1'', doc_Title = ''T'', doc_Content = ''Hello.''\<rparr>],
        chunks_table = [\<lparr>row_id = ''d1_chunk_0'', row_document_id = ''d1'',
                         row_content = ''Hello.''\<rparr>]\<rparr>)) \<and>
   SaveDocument NoFault
     \<lparr>documents_table = [\<lparr>doc_ID = ''d1'', doc_Title = ''T'', doc_Content = ''Hello.''\<rparr>],
      chunks_table = [\<lparr>row_id = ''d1_chunk_0'', row_document_id = ''d1'',
                       row_content = ''Hello.''\<rparr>]\<rparr>
     \<lparr>doc_ID = ''d1'', doc_Title = ''Other'', doc_Content = ''Other text.''\<rparr> =
     Some (Inr (Some InsertDocumentFailed,
       \<lparr>documents_table = [\<lparr>doc_ID = ''d1'', doc_Title = ''T'', doc_Content = ''Hello.''\<rparr>],
        chunks_table = [\<lparr>row_id = ''d1_chunk_0'', row_document_id = ''d1'',
                         row_content = ''Hello.''\<rparr>]\<rparr>))"
proof
  have split: "splitIntoChunks ''Hello.'' 500 = Some (Inr [''Hello.''])"
    by (simp add: splitIntoChunks_def splitLoop.simps)
  have dec: "decimal 0 = ''0''"
    by (simp add: decimal.simps digit_char_def)
  show "SaveDocument NoFault \<lparr>documents_table = [], chunks_table = []\<rparr>
     \<lparr>doc_ID = ''d1'', doc_Title = ''T'', doc_Content = ''Hello.''\<rparr> =
     Some (Inr (None,
       \<lparr>documents_table = [\<lparr>doc_ID = ''d1'', doc_Title = ''T'', doc_Content = ''Hello.''\<rparr>],
        chunks_table = [\<lparr>row_id = ''d1_chunk_0'', row_document_id = ''d1'',
                         row_content = ''Hello.''\<rparr>]\<rparr>))"
    by (simp add: SaveDocument_def split dec)
  show "SaveDocument NoFault
     \<lparr>documents_table = [\<lparr>doc_ID = ''d1'', doc_Title = ''T'', doc_Content = ''Hello.''\<rparr>],
      chunks_table = [\<lparr>row_id = ''d1_chunk_0'', row_document_id = ''d1'',
                       row_content = ''Hello.''\<rparr>]\<rparr>
     \<lparr>doc_ID = ''d1'', doc_Title = ''Other'', doc_Content = ''Other text.''\<rparr> =
     Some (Inr (Some InsertDocumentFailed,
       \<lparr>documents_table = [\<lparr>doc_ID = ''d1'', doc_Title = ''T'', doc_Content = ''Hello.''\<rparr>],
        chunks_table = [\<lparr>row_id = ''d1_chunk_0'', row_document_id = ''d1'',
                         row_content = ''Hello.''\<rparr>]\<rparr>))"
    using save_duplicate_rolls_back [of
        "\<lparr>doc_ID = ''d1'', doc_Title = ''Other'', doc_Content = ''Other text.''\<rparr>"
        "\<lparr>documents_table = [\<lparr>doc_ID = ''d1'', doc_Title = ''T'', doc_Content = ''Hello.''\<rparr>],
          chunks_table = [\<lparr>row_id = ''d1_chunk_0'', row_document_id = ''d1'',
                           row_content = ''Hello.''\<rparr>]\<rparr>" NoFault]
    by simp
qed

section \<open>Properties of the response cache\<close>

lemma take_min_int: "take (nat (min_int 100 (int (length s)))) s = take 100 s"
  by (simp add: min_int_def)

lemma keyData_concat:
  "keyData q cs = q @ concat (map (\<lambda>c. ID c @ take 100 (Content c)) cs)"
  unfolding keyData_def by (induction cs arbitrary: q) (simp_all add: take_min_int)

lemma map_append_cong:
  assumes "map f xs = map f ys" and "map g xs = map g ys"
  shows "map (\<lambda>x. f x @ g x) xs = map (\<lambda>x. f x @ g x) ys"
proof (rule nth_equalityI)
  from assms(1) have len: "length xs = length ys"
    by (metis length_map)
  then show "length (map (\<lambda>x. f x @ g x) xs) = length (map (\<lambda>x. f x @ g x) ys)"
    by simp
  fix i
  assume "i < length (map (\<lambda>x. f x @ g x) xs)"
  with len have i: "i < length xs" "i < length ys" by simp_all
  have "f (xs ! i) = f (ys ! i)"
    using assms(1) i by (metis nth_map)
  moreover have "g (xs ! i) = g (ys ! i)"
    using assms(2) i by (metis nth_map)
  ultimately show "map (\<lambda>x. f x @ g x) xs ! i = map (\<lambda>x. f x @ g x) ys ! i"
    using i by simp
qed

lemma length_hex128: "length (hex128 w) = 32"
  by (simp add: hex128_def)

lemma length_getCacheKey: "length (getCacheKey L q cs) = 32"
  by (simp add: getCacheKey_def length_hex128)

text \<open>
  C7. The fingerprint is a function of the (sanitized) query, the fragment IDs in order
  and the first 100 bytes of each fragment's content: two fragment lists that agree on the
  IDs and on the 100-byte prefixes of the contents have the same fingerprint, whatever
  follows the prefix.
\<close>

theorem fingerprint_truncation:
  assumes "map ID cs = map ID cs'"
    and "map (\<lambda>c. take 100 (Content c)) cs = map (\<lambda>c. take 100 (Content c)) cs'"
  shows "getCacheKey L q cs = getCacheKey L q cs'"
proof -
  have "map (\<lambda>c. ID c @ take 100 (Content c)) cs = map (\<lambda>c. ID c @ take 100 (Content c)) cs'"
    using assms by (rule map_append_cong)
  then have "keyData q cs = keyData q cs'"
    by (simp add: keyData_concat)
  then show ?thesis by (simp add: getCacheKey_def)
qed

theorem fingerprint_truncation_witness:
  "getCacheKey ascii_lib ''q''
     [\<lparr>ID = ''c0'', DocumentID = ''d'', Content = replicate 100 CHR ''a'' @ ''x'', Similarity = 1\<rparr>] =
   getCacheKey ascii_lib ''q''
     [\<lparr>ID = ''c0'', DocumentID = ''d'', Content = replicate 100 CHR ''a'' @ ''yz'', Similarity = 0\<rparr>]"
  using fingerprint_truncation [of
      "[\<lparr>ID = ''c0'', DocumentID = ''d'', Content = replicate 100 CHR ''a'' @ ''x'', Similarity = 1\<rparr>]"
      "[\<lparr>ID = ''c0'', DocumentID = ''d'', Content = replicate 100 CHR ''a'' @ ''yz'', Similarity = 0\<rparr>]"
      ascii_lib "''q''"]
  by simp

lemma map_of_filter_neq:
  "map_of (filter (\<lambda>(p, d). p \<noteq> path) al) q = (if q = path then None else map_of al q)"
  by (induction al) auto

lemma ReadFile_WriteFile:
  "WriteFile f path data = (None, f') \<Longrightarrow> ReadFile f' path = Some data"
  by (auto simp: WriteFile_def ReadFile_def split: if_splits)

lemma Remove_keeps_absent:
  "ReadFile f q = None \<Longrightarrow> ReadFile (snd (Remove f path)) q = None"
  by (simp add: Remove_def ReadFile_def map_of_filter_neq)

lemma Remove_remove_fails: "remove_fails (snd (Remove f path)) = remove_fails f"
  by (simp add: Remove_def)

lemma Remove_removes:
  "\<not> remove_fails f path \<Longrightarrow> ReadFile (snd (Remove f path)) path = None"
  by (auto simp: Remove_def ReadFile_def map_of_filter_neq map_of_eq_None_iff)

lemma removeAll_keeps_absent:
  "ReadFile f q = None \<Longrightarrow> ReadFile (removeAll f ps) q = None"
  by (induction ps arbitrary: f) (simp_all add: Remove_keeps_absent)

lemma removeAll_removes:
  "path \<in> set ps \<Longrightarrow> \<not> remove_fails f path \<Longrightarrow> ReadFile (removeAll f ps) path = None"
proof (induction ps arbitrary: f)
  case Nil
  then show ?case by simp
next
  case (Cons p ps)
  show ?case
  proof (cases "p = path")
    case True
    with Cons.prems have "ReadFile (snd (Remove f p)) path = None"
      by (simp add: Remove_removes)
    then show ?thesis by (simp add: removeAll_keeps_absent)
  next
    case False
    with Cons.prems have "path \<in> set ps" "\<not> remove_fails (snd (Remove f p)) path"
      by (simp_all add: Remove_remove_fails)
    from Cons.IH [OF this] show ?thesis by simp
  qed
qed

lemma glob_matches_cacheFile:
  "CHR ''/'' \<notin> set k \<Longrightarrow> glob_txt_match (cacheDir c) (cacheFile c k)"
  by (simp add: glob_txt_match_def cacheFile_def filepath_Join_def)

lemma ClearCache_removes:
  assumes "CHR ''/'' \<notin> set k" "\<not> remove_fails f (cacheFile c k)"
  shows "ReadFile (snd (ClearCache c f)) (cacheFile c k) = None"
proof (cases "ReadFile f (cacheFile c k)")
  case None
  then show ?thesis by (simp add: ClearCache_def removeAll_keeps_absent)
next
  case (Some d)
  then have "cacheFile c k \<in> set (map fst (files f))"
    by (auto simp: ReadFile_def dest: map_of_SomeD intro: rev_image_eqI)
  with assms(1) have "cacheFile c k \<in> set (Glob_txt f (cacheDir c))"
    by (simp add: Glob_txt_def glob_matches_cacheFile)
  from removeAll_removes [OF this assms(2)] show ?thesis by (simp add: ClearCache_def)
qed

text \<open>
  C4 as stated fails: the cache does not return every stored value exactly. The lookup
  trims white space, so the value \<^verbatim>\<open>"hi "\<close> is stored and \<^verbatim>\<open>"hi"\<close> comes back.
\<close>

theorem cache_round_trip_counterexample:
  "fst (saveCachedResponse NewAIClient empty_fs ''0123456789abcdef'' ''hi '') = None \<and>
   getCachedResponse ascii_lib NewAIClient
     (snd (saveCachedResponse NewAIClient empty_fs ''0123456789abcdef'' ''hi ''))
     ''0123456789abcdef'' \<noteq> Inr (''hi '', True)"
  by (simp add: saveCachedResponse_def WriteFile_def getCachedResponse_def ReadFile_def
      cacheFile_def filepath_Join_def NewAIClient_def empty_fs_def ascii_lib_def
      ascii_TrimSpace_def ascii_space_def)

text \<open>
  C4, amended. After a successful store under a key of at least 8 bytes (a fingerprint
  has 32), the lookup returns the stored value trimmed of surrounding white space, which
  is the stored value itself when that is non-empty and has no surrounding white space (as
  every answer the client stores), and it reports a miss when the trimmed value is empty.
  After \<open>ClearCache\<close> the lookup is a miss for every key without a path separator whose
  cache file could be removed.
\<close>

theorem cache_round_trip:
  "(saveCachedResponse c f k v = (None, f') \<and> 8 \<le> length k \<longrightarrow>
      getCachedResponse L c f' k =
        Inr (if TrimSpace L v = [] then ([], False) else (TrimSpace L v, True))) \<and>
   (saveCachedResponse c f k v = (None, f') \<and> 8 \<le> length k \<and> TrimSpace L v = v \<and> v \<noteq> [] \<longrightarrow>
      getCachedResponse L c f' k = Inr (v, True)) \<and>
   (CHR ''/'' \<notin> set k \<and> \<not> remove_fails f (cacheFile c k) \<longrightarrow>
      getCachedResponse L c (snd (ClearCache c f)) k = Inr ([], False))"
proof (intro conjI impI)
  assume a: "saveCachedResponse c f k v = (None, f') \<and> 8 \<le> length k"
  then have "WriteFile f (cacheFile c k) v = (None, f')"
    by (simp add: saveCachedResponse_def)
  then have "ReadFile f' (cacheFile c k) = Some v"
    by (rule ReadFile_WriteFile)
  with a show "getCachedResponse L c f' k =
      Inr (if TrimSpace L v = [] then ([], False) else (TrimSpace L v, True))"
    by (simp add: getCachedResponse_def Let_def)
next
  assume a: "saveCachedResponse c f k v = (None, f') \<and> 8 \<le> length k \<and> TrimSpace L v = v \<and> v \<noteq> []"
  then have "WriteFile f (cacheFile c k) v = (None, f')"
    by (simp add: saveCachedResponse_def)
  then have "ReadFile f' (cacheFile c k) = Some v"
    by (rule ReadFile_WriteFile)
  with a show "getCachedResponse L c f' k = Inr (v, True)"
    by (simp add: getCachedResponse_def Let_def)
next
  assume "CHR ''/'' \<notin> set k \<and> \<not> remove_fails f (cacheFile c k)"
  then have "ReadFile (snd (ClearCache c f)) (cacheFile c k) = None"
    by (simp add: ClearCache_removes)
  then show "getCachedResponse L c (snd (ClearCache c f)) k = Inr ([], False)"
    by (simp add: getCachedResponse_def)
qed

theorem cache_round_trip_witness:
  "saveCachedResponse NewAIClient empty_fs ''0123456789abcdef'' ''hi'' =
     (None, empty_fs\<lparr>files := [(''cache/ai/0123456789abcdef.txt'', ''hi'')]\<rparr>) \<and>
   getCachedResponse ascii_lib NewAIClient
     (empty_fs\<lparr>files := [(''cache/ai/0123456789abcdef.txt'', ''hi'')]\<rparr>)
     ''0123456789abcdef'' = Inr (''hi'', True) \<and>
   getCachedResponse ascii_lib NewAIClient
     (snd (ClearCache NewAIClient
        (empty_fs\<lparr>files := [(''cache/ai/0123456789abcdef.txt'', ''hi'')]\<rparr>)))
     ''0123456789abcdef'' = Inr ([], False)"
proof -
  have put: "saveCachedResponse NewAIClient empty_fs ''0123456789abcdef'' ''hi'' =
      (None, empty_fs\<lparr>files := [(''cache/ai/0123456789abcdef.txt'', ''hi'')]\<rparr>)"
    by (simp add: saveCachedResponse_def WriteFile_def cacheFile_def filepath_Join_def
        NewAIClient_def empty_fs_def)
  have trim: "TrimSpace ascii_lib ''hi'' = ''hi''"
    by (simp add: ascii_lib_def ascii_TrimSpace_def ascii_space_def)
  have rm: "\<not> remove_fails (empty_fs\<lparr>files := [(''cache/ai/0123456789abcdef.txt'', ''hi'')]\<rparr>)
      (cacheFile NewAIClient ''0123456789abcdef'')"
    by (simp add: empty_fs_def)
  have get: "getCachedResponse ascii_lib NewAIClient
      (empty_fs\<lparr>files := [(''cache/ai/0123456789abcdef.txt'', ''hi'')]\<rparr>)
      ''0123456789abcdef'' = Inr (''hi'', True)"
    using cache_round_trip [of NewAIClient empty_fs "''0123456789abcdef''" "''hi''"
        "empty_fs\<lparr>files := [(''cache/ai/0123456789abcdef.txt'', ''hi'')]\<rparr>" ascii_lib]
      put trim
    by simp
  have clear: "getCachedResponse ascii_lib NewAIClient
      (snd (ClearCache NewAIClient
         (empty_fs\<lparr>files := [(''cache/ai/0123456789abcdef.txt'', ''hi'')]\<rparr>)))
      ''0123456789abcdef'' = Inr ([], False)"
  proof -
    have "CHR ''/'' \<notin> set ''0123456789abcdef'' \<and>
        \<not> remove_fails (empty_fs\<lparr>files := [(''cache/ai/0123456789abcdef.txt'', ''hi'')]\<rparr>)
          (cacheFile NewAIClient ''0123456789abcdef'') \<longrightarrow>
        getCachedResponse ascii_lib NewAIClient
          (snd (ClearCache NewAIClient
             (empty_fs\<lparr>files := [(''cache/ai/0123456789abcdef.txt'', ''hi'')]\<rparr>)))
          ''0123456789abcdef'' = Inr ([], False)"
      using cache_round_trip [of NewAIClient
          "empty_fs\<lparr>files := [(''cache/ai/0123456789abcdef.txt'', ''hi'')]\<rparr>"
          "''0123456789abcdef''" "''hi''" empty_fs ascii_lib]
      by blast
    with rm show ?thesis by simp
  qed
  from put get clear
  show ?thesis by simp
qed

section \<open>Properties of the retrieval index\<close>

lemma sorted_rankedRows: "sorted (map snd (rankedRows S db e limit))"
proof -
  have "sorted (map snd (sort_key snd xs))" for xs :: "(Chunk \<times> real) list"
    by (rule sorted_sort_key)
  moreover have "sorted (map snd (take n (sort_key snd xs)))" for n and xs :: "(Chunk \<times> real) list"
    using sorted_wrt_take [OF sorted_sort_key [of snd xs], of n] by (simp add: take_map)
  ultimately show ?thesis
    by (simp add: rankedRows_def sql_limit_def)
qed

lemma sorted_first_Min:
  fixes xs :: "real list"
  assumes "sorted xs" "xs \<noteq> []"
  shows "xs ! 0 = Min (set xs)"
proof (rule Min_eqI [symmetric])
  show "finite (set xs)" by simp
  show "xs ! 0 \<in> set xs" using assms(2) by simp
  fix y assume "y \<in> set xs"
  then obtain j where "j < length xs" "y = xs ! j" by (auto simp: in_set_conv_nth)
  with assms(1) show "xs ! 0 \<le> y" by (simp add: sorted_nth_mono)
qed

lemma sorted_last_Max:
  fixes xs :: "real list"
  assumes "sorted xs" "xs \<noteq> []"
  shows "xs ! (length xs - 1) = Max (set xs)"
proof (rule Max_eqI [symmetric])
  show "finite (set xs)" by simp
  show "xs ! (length xs - 1) \<in> set xs" using assms(2) by simp
  fix y assume "y \<in> set xs"
  then obtain j where "j < length xs" "y = xs ! j" by (auto simp: in_set_conv_nth)
  with assms show "y \<le> xs ! (length xs - 1)" by (simp add: sorted_nth_mono)
qed

lemma normalizeLoop_filter_map:
  "normalizeLoop lo hi t rows =
     filter (\<lambda>c. t \<le> 0 \<or> Similarity c \<ge> t)
       (map (\<lambda>(c, x). c\<lparr>Similarity := (if hi = lo then 1 else (hi - x) / (hi - lo))\<rparr>) rows)"
  by (induction rows) (auto simp: Let_def)

text \<open>
  Because the rows arrive in ascending order of rank, the first and the last rank are the
  minimum and the maximum of the result set, and the loop computes the min-max scaling.
\<close>

lemma normalizeRanks_minmax:
  assumes "sorted (map snd rows)"
  shows "normalizeRanks t rows =
     filter (\<lambda>c. t \<le> 0 \<or> Similarity c \<ge> t)
       (map (\<lambda>(c, x). c\<lparr>Similarity := minmax_similarity (snd ` set rows) x\<rparr>) rows)"
proof (cases "rows = []")
  case True
  then show ?thesis by (simp add: normalizeRanks_def)
next
  case False
  then have ne: "map snd rows \<noteq> []" by simp
  have "snd (rows ! 0) = map snd rows ! 0"
    using False by (simp add: nth_map)
  also have "\<dots> = Min (set (map snd rows))"
    using sorted_first_Min [OF assms ne] .
  finally have lo: "snd (rows ! 0) = Min (snd ` set rows)" by simp
  have "snd (rows ! (length rows - 1)) = map snd rows ! (length (map snd rows) - 1)"
    using False by (simp add: nth_map)
  also have "\<dots> = Max (set (map snd rows))"
    using sorted_last_Max [OF assms ne] .
  finally have hi: "snd (rows ! (length rows - Suc 0)) = Max (snd ` set rows)" by simp
  show ?thesis
    using False
    by (simp add: normalizeRanks_def Let_def lo hi normalizeLoop_filter_map
        minmax_similarity_def)
qed

lemma minmax_similarity_range:
  assumes "finite A" "x \<in> A"
  shows "0 \<le> minmax_similarity A x \<and> minmax_similarity A x \<le> 1"
proof -
  have "Min A \<le> x" "x \<le> Max A" using assms by simp_all
  then show ?thesis
    by (auto simp: minmax_similarity_def divide_le_eq_1)
qed

text \<open>
  C2. In extension-ranked mode, for a query with at least one searchable term that the
  engine accepts, \<open>findRelevantChunksFTS5\<close> returns the rows of the ranked result set, each
  with the min-max scaling of its rank over the returned result set as similarity, and
  keeps those whose similarity is at least the threshold (all of them when the threshold
  is at most 0): the filter reads the normalized similarity, not the raw rank. The lowest
  (most negative) rank, which is that of the first row, maps to 1; the highest maps to 0
  unless all ranks are equal, in which case every row gets 1; every similarity lies
  between 0 and 1.
\<close>

theorem fts5_minmax_normalization:
  assumes "TrimSpace L q \<noteq> []" and "formatFTS5Query L q \<noteq> []"
    and "\<not> rejects S (ChunksMatch (formatFTS5Query L q))"
    and "rows = rankedRows S db (formatFTS5Query L q) limit"
    and "scores = snd ` set rows"
  shows "findRelevantChunksFTS5 L S db q limit t =
           Inr (filter (\<lambda>c. t \<le> 0 \<or> Similarity c \<ge> t)
                  (map (\<lambda>(c, x). c\<lparr>Similarity := minmax_similarity scores x\<rparr>) rows)) \<and>
         minmax_similarity scores (Min scores) = 1 \<and>
         (Max scores \<noteq> Min scores \<longrightarrow> minmax_similarity scores (Max scores) = 0) \<and>
         (Max scores = Min scores \<longrightarrow> (\<forall>x. minmax_similarity scores x = 1)) \<and>
         (rows \<noteq> [] \<longrightarrow> snd (hd rows) = Min scores \<and> snd (last rows) = Max scores) \<and>
         (\<forall>x \<in> scores. 0 \<le> minmax_similarity scores x \<and> minmax_similarity scores x \<le> 1)"
proof (intro conjI)
  have srt: "sorted (map snd rows)"
    using assms(4) by (simp add: sorted_rankedRows)
  show "findRelevantChunksFTS5 L S db q limit t =
      Inr (filter (\<lambda>c. t \<le> 0 \<or> Similarity c \<ge> t)
             (map (\<lambda>(c, x). c\<lparr>Similarity := minmax_similarity scores x\<rparr>) rows))"
    using assms normalizeRanks_minmax [OF srt, of t]
    by (simp add: findRelevantChunksFTS5_def Let_def)
  show "minmax_similarity scores (Min scores) = 1"
    by (simp add: minmax_similarity_def)
  show "Max scores \<noteq> Min scores \<longrightarrow> minmax_similarity scores (Max scores) = 0"
    by (simp add: minmax_similarity_def)
  show "Max scores = Min scores \<longrightarrow> (\<forall>x. minmax_similarity scores x = 1)"
    by (simp add: minmax_similarity_def)
  show "rows \<noteq> [] \<longrightarrow> snd (hd rows) = Min scores \<and> snd (last rows) = Max scores"
  proof
    assume ne: "rows \<noteq> []"
    then have ne': "map snd rows \<noteq> []" by simp
    have "snd (hd rows) = map snd rows ! 0"
      using ne by (simp add: hd_conv_nth)
    moreover have "snd (last rows) = map snd rows ! (length (map snd rows) - 1)"
      using ne by (simp add: last_conv_nth)
    ultimately show "snd (hd rows) = Min scores \<and> snd (last rows) = Max scores"
      using sorted_first_Min [OF srt ne'] sorted_last_Max [OF srt ne'] assms(5) by simp
  qed
  show "\<forall>x \<in> scores. 0 \<le> minmax_similarity scores x \<and> minmax_similarity scores x \<le> 1"
    using assms(5) by (simp add: minmax_similarity_range)
qed

lemma scanLike_mono:
  "t1 \<le> t2 \<Longrightarrow> length (scanLike L q t2 rows) \<le> length (scanLike L q t1 rows)"
  by (induction rows) (auto simp: Let_def)

lemma scanNeutral_mono:
  "t1 \<le> t2 \<Longrightarrow> length (scanNeutral t2 rows) \<le> length (scanNeutral t1 rows)"
  by (induction rows) (auto simp: Let_def)

lemma normalizeLoop_mono:
  "t1 \<le> t2 \<Longrightarrow> length (normalizeLoop lo hi t2 rows) \<le> length (normalizeLoop lo hi t1 rows)"
  by (induction rows) (auto simp: Let_def)

lemma normalizeRanks_mono:
  "t1 \<le> t2 \<Longrightarrow> length (normalizeRanks t2 rows) \<le> length (normalizeRanks t1 rows)"
  by (simp add: normalizeRanks_def Let_def normalizeLoop_mono)

lemma findRelevantChunksLike_mono:
  "t1 \<le> t2 \<Longrightarrow>
   length (returned (findRelevantChunksLike L S db q limit t2)) \<le>
   length (returned (findRelevantChunksLike L S db q limit t1))"
  by (simp add: findRelevantChunksLike_def returned_def Let_def scanLike_mono)

lemma findRelevantChunksFTS5_mono:
  "t1 \<le> t2 \<Longrightarrow>
   length (returned (findRelevantChunksFTS5 L S db q limit t2)) \<le>
   length (returned (findRelevantChunksFTS5 L S db q limit t1))"
  by (simp add: findRelevantChunksFTS5_def returned_def Let_def scanNeutral_mono
      normalizeRanks_mono)

text \<open>
  C6. In both ranking modes, for every query and limit, raising the threshold never
  returns more fragments: with \<open>t1 \<le> t2\<close> the call at \<open>t2\<close> returns at most as many
  fragments as the call at \<open>t1\<close> (a threshold of at most 0 filters nothing).
\<close>

theorem threshold_monotone:
  assumes "t1 \<le> t2"
  shows "length (returned (FindRelevantChunks L S fts5Enabled db q limit t2)) \<le>
         length (returned (FindRelevantChunks L S fts5Enabled db q limit t1)) \<and>
         length (returned (findRelevantChunksLike L S db q limit t2)) \<le>
         length (returned (findRelevantChunksLike L S db q limit t1))"
  using assms
  by (simp add: FindRelevantChunks_def findRelevantChunksLike_mono findRelevantChunksFTS5_mono)

lemma ranked_example:
  "rankedRows toy_sqlite example_store ''e'' 10 =
     [(\<lparr>ID = ''d3_chunk_0'', DocumentID = ''d3'', Content = ''eleven e'', Similarity = 0\<rparr>, - 4),
      (\<lparr>ID = ''d2_chunk_0'', DocumentID = ''d2'', Content = ''tree'', Similarity = 0\<rparr>, - 2),
      (\<lparr>ID = ''d1_chunk_0'', DocumentID = ''d1'', Content = ''the'', Similarity = 0\<rparr>, - 1)]"
  by (simp add: rankedRows_def toy_sqlite_def example_store_def sql_limit_def scan_row_def)

lemma format_example: "formatFTS5Query ascii_lib ''e'' = ''e''"
  by (simp add: formatFTS5Query_def ascii_lib_def ascii_TrimSpace_def ascii_Fields_def
      ascii_space_def)

theorem fts5_minmax_normalization_witness:
  "TrimSpace ascii_lib ''e'' \<noteq> [] \<and>
   formatFTS5Query ascii_lib ''e'' \<noteq> [] \<and>
   \<not> rejects toy_sqlite (ChunksMatch (formatFTS5Query ascii_lib ''e'')) \<and>
   findRelevantChunksFTS5 ascii_lib toy_sqlite example_store ''e'' 10 (3 / 10) =
     Inr [\<lparr>ID = ''d3_chunk_0'', DocumentID = ''d3'', Content = ''eleven e'', Similarity = 1\<rparr>,
          \<lparr>ID = ''d2_chunk_0'', DocumentID = ''d2'', Content = ''tree'', Similarity = 1 / 3\<rparr>] \<and>
   minmax_similarity {- 4, - 2, - 1} (- 4) = 1 \<and>
   minmax_similarity {- 4, - 2, - 1} (- 1) = 0"
proof -
  have h1: "TrimSpace ascii_lib ''e'' \<noteq> []"
    by (simp add: ascii_lib_def ascii_TrimSpace_def ascii_space_def)
  have h2: "formatFTS5Query ascii_lib ''e'' \<noteq> []"
    by (simp add: format_example)
  have h3: "\<not> rejects toy_sqlite (ChunksMatch (formatFTS5Query ascii_lib ''e''))"
    by (simp add: toy_sqlite_def)
  have scores: "snd ` set (rankedRows toy_sqlite example_store ''e'' 10) = {- 4, - 2, - 1}"
    by (simp add: ranked_example)
  have mm: "Min {- 4, - 2, - 1 :: real} = - 4" "Max {- 4, - 2, - 1 :: real} = - 1"
    by simp_all
  note inst = fts5_minmax_normalization [OF h1 h2 h3 refl refl, of example_store 10 "3 / 10"]
  from inst
  have "findRelevantChunksFTS5 ascii_lib toy_sqlite example_store ''e'' 10 (3 / 10) =
     Inr [\<lparr>ID = ''d3_chunk_0'', DocumentID = ''d3'', Content = ''eleven e'', Similarity = 1\<rparr>,
          \<lparr>ID = ''d2_chunk_0'', DocumentID = ''d2'', Content = ''tree'', Similarity = 1 / 3\<rparr>]"
    by (simp add: format_example ranked_example minmax_similarity_def mm)
  moreover from inst have "minmax_similarity {- 4, - 2, - 1} (- 4) = 1"
    "minmax_similarity {- 4, - 2, - 1} (- 1) = 0"
    by (simp_all add: format_example scores mm)
  ultimately show ?thesis using h1 h2 h3 by simp
qed

theorem threshold_monotone_witness:
  "(4 / 10 :: real) \<le> 9 / 10 \<and>
   length (returned (FindRelevantChunks ascii_lib toy_sqlite False example_store ''the tree'' 10 (9 / 10))) \<le>
   length (returned (FindRelevantChunks ascii_lib toy_sqlite False example_store ''the tree'' 10 (4 / 10))) \<and>
   length (returned (FindRelevantChunks ascii_lib toy_sqlite False example_store ''the tree'' 10 (9 / 10))) = 0 \<and>
   length (returned (FindRelevantChunks ascii_lib toy_sqlite False example_store ''the tree'' 10 (4 / 10))) = 2"
proof -
  have le: "(4 / 10 :: real) \<le> 9 / 10" by simp
  have fields: "Fields ascii_lib ''the tree'' = [''the'', ''tree'']"
    by (simp add: ascii_lib_def ascii_Fields_def ascii_space_def)
  have lower: "ToLower ascii_lib ''the tree'' = ''the tree''" "ToLower ascii_lib ''the'' = ''the''"
    "ToLower ascii_lib ''tree'' = ''tree''"
    by (simp_all add: ascii_lib_def ascii_ToLower_def ascii_lower_char_def)
  have sims: "calculateSimpleSimilarity ascii_lib ''the tree'' ''the'' = 1 / 2"
    "calculateSimpleSimilarity ascii_lib ''the tree'' ''tree'' = 1 / 2"
    by (simp_all add: calculateSimpleSimilarity_def Let_def lower fields)
  have hi: "returned (FindRelevantChunks ascii_lib toy_sqlite False example_store ''the tree'' 10 (9 / 10)) = []"
    by (simp add: FindRelevantChunks_def findRelevantChunksLike_def Let_def fields returned_def
        toy_sqlite_def example_store_def sql_limit_def sims scan_row_def
        ascii_ToLower_def ascii_lower_char_def)
  have lo: "length (returned (FindRelevantChunks ascii_lib toy_sqlite False example_store ''the tree'' 10 (4 / 10))) = 2"
    by (simp add: FindRelevantChunks_def findRelevantChunksLike_def Let_def fields returned_def
        toy_sqlite_def example_store_def sql_limit_def sims scan_row_def
        ascii_ToLower_def ascii_lower_char_def)
  from threshold_monotone [OF le, of ascii_lib toy_sqlite False example_store "''the tree''" 10] hi lo le
  show ?thesis by simp
qed

section \<open>Properties of the generation client\<close>

text \<open>Single steps of the retry loop, one per classified outcome.\<close>

lemma retry_continue_429:
  assumes "attempt < maxRetries c" "srv attempt = HTTPResponse 429 body"
  shows "retryLoop L c srv k attempt m e f =
           retryLoop L c srv k (attempt + 1) (m\<lparr>Retries := attempt, Status := 429\<rparr>)
             (Some ErrRateLimit) f"
  using assms by (subst retryLoop.simps) simp

lemma retry_continue_5xx:
  assumes "attempt < maxRetries c" "srv attempt = HTTPResponse status body" "500 \<le> status"
  shows "retryLoop L c srv k attempt m e f =
           retryLoop L c srv k (attempt + 1) (m\<lparr>Retries := attempt, Status := status\<rparr>)
             (Some (ErrServer status)) f"
  using assms by (subst retryLoop.simps) simp

lemma retry_final_5xx:
  assumes "attempt = maxRetries c" "srv attempt = HTTPResponse status body" "500 \<le> status"
  shows "retryLoop L c srv k attempt m e f =
           (([], Some (ErrServerFinal status (maxRetries c + 1)
                         (take (nat (min_int 200 (int (length body)))) body))),
            m\<lparr>Retries := attempt, Status := status\<rparr>, f)"
  using assms by (subst retryLoop.simps) simp

lemma retry_success:
  assumes "attempt \<le> maxRetries c" "srv attempt = HTTPResponse 200 body"
    and "parseAIResponse L body = Inr answer"
  shows "retryLoop L c srv k attempt m e f =
           ((answer, None), m\<lparr>Retries := attempt, Status := 200\<rparr>,
            snd (saveCachedResponse c f k answer))"
  using assms by (subst retryLoop.simps) (simp add: split_beta)

lemma retry_client_error:
  assumes "attempt \<le> maxRetries c" "srv attempt = HTTPResponse status body"
    and "status \<noteq> 200" "status \<noteq> 429" "status < 500"
  shows "retryLoop L c srv k attempt m e f =
           (([], Some (ErrAPI status (take (nat (min_int 200 (int (length body)))) body))),
            m\<lparr>Retries := attempt, Status := status\<rparr>, f)"
  using assms by (subst retryLoop.simps) simp

lemma GenerateResponse_miss:
  assumes "getCachedResponse L c f (getCacheKey L (sanitizeInput L q 1000) cs) = Inr ([], False)"
    and "\<not> marshal_fails E"
  shows "GenerateResponse L c E f q cs =
           Inr (retryLoop L c (server E) (getCacheKey L (sanitizeInput L q 1000) cs) 0
                  \<lparr>Status = 0, Retries = 0, FromCache = False\<rparr> None f)"
  using assms by (simp add: GenerateResponse_def Let_def)

text \<open>
  C3 as stated fails in its second part: with the retry budget 3 of \<open>NewAIClient\<close>, three
  consecutive 500 responses do not end the call. The budget is three retries after the
  first attempt, so a fourth attempt is made, and when that one succeeds the call returns
  its answer.
\<close>

theorem retry_policy_counterexample:
  "map_sum id fst
     (GenerateResponse ascii_lib NewAIClient
        \<lparr>marshal_fails = False,
         server = script [HTTPResponse 500 ''e'', HTTPResponse 500 ''e'', HTTPResponse 500 ''e'',
                          HTTPResponse 200 ''ok'']\<rparr>
        empty_fs ''q'' []) = Inr (''ok'', None)"
proof -
  let ?srv = "script [HTTPResponse 500 ''e'', HTTPResponse 500 ''e'', HTTPResponse 500 ''e'',
                      HTTPResponse 200 ''ok'']"
  have miss: "getCachedResponse ascii_lib NewAIClient empty_fs k = Inr ([], False)" for k
    by (simp add: getCachedResponse_def ReadFile_def empty_fs_def)
  have srv: "?srv 0 = HTTPResponse 500 ''e''" "?srv 1 = HTTPResponse 500 ''e''"
    "?srv 2 = HTTPResponse 500 ''e''" "?srv 3 = HTTPResponse 200 ''ok''"
    by (simp_all add: script_def)
  have parse: "parseAIResponse ascii_lib ''ok'' = Inr ''ok''"
    by (simp add: parseAIResponse_def ascii_lib_def toy_json_def ascii_TrimSpace_def
        ascii_space_def)
  have "fst (retryLoop ascii_lib NewAIClient ?srv k 0 m None empty_fs) = (''ok'', None)" for k m
    using srv parse
    by (simp add: retry_continue_5xx [where body = "''e''"] retry_success NewAIClient_def)
  then show ?thesis
    by (simp add: GenerateResponse_def Let_def miss)
qed

text \<open>
  C3, amended. With the retry budget 3 of \<open>NewAIClient\<close>, on a cache miss: two 429
  responses followed by a 200 with a valid answer return that answer with retry count 2;
  four consecutive 5xx responses (the first attempt and three retries) end in the terminal
  server error, with retry count 3; a single 4xx response other than 429 ends the call at
  once with a terminal error and retry count 0, and at whatever attempt such a response
  arrives, the loop returns its error without another attempt.
\<close>

theorem retry_policy:
  assumes "maxRetries c = 3"
    and "getCachedResponse L c f (getCacheKey L (sanitizeInput L q 1000) cs) = Inr ([], False)"
    and "\<not> marshal_fails E"
  shows "(server E 0 = HTTPResponse 429 body_a \<and> server E 1 = HTTPResponse 429 body_b \<and>
          server E 2 = HTTPResponse 200 body_c \<and> parseAIResponse L body_c = Inr answer \<longrightarrow>
            (\<exists>f'. GenerateResponse L c E f q cs =
                    Inr ((answer, None), \<lparr>Status = 200, Retries = 2, FromCache = False\<rparr>, f'))) \<and>
         (server E 0 = HTTPResponse status_a body_a \<and> server E 1 = HTTPResponse status_b body_b \<and>
          server E 2 = HTTPResponse status_c body_c \<and> server E 3 = HTTPResponse status_d body_d \<and>
          500 \<le> status_a \<and> 500 \<le> status_b \<and> 500 \<le> status_c \<and> 500 \<le> status_d \<longrightarrow>
            GenerateResponse L c E f q cs =
              Inr (([], Some (ErrServerFinal status_d 4 (take (nat (min_int 200 (int (length body_d)))) body_d))),
                   \<lparr>Status = status_d, Retries = 3, FromCache = False\<rparr>, f)) \<and>
         (server E 0 = HTTPResponse status_a body_a \<and> 400 \<le> status_a \<and> status_a < 500 \<and>
          status_a \<noteq> 429 \<longrightarrow>
            GenerateResponse L c E f q cs =
              Inr (([], Some (ErrAPI status_a
                               (take (nat (min_int 200 (int (length body_a)))) body_a))),
                   \<lparr>Status = status_a, Retries = 0, FromCache = False\<rparr>, f)) \<and>
         (attempt \<le> maxRetries c \<and> srv attempt = HTTPResponse status_a body_a \<and>
          400 \<le> status_a \<and> status_a < 500 \<and> status_a \<noteq> 429 \<longrightarrow>
            retryLoop L c srv k attempt m e f =
              (([], Some (ErrAPI status_a
                            (take (nat (min_int 200 (int (length body_a)))) body_a))),
               m\<lparr>Retries := attempt, Status := status_a\<rparr>, f))"
proof (intro conjI impI)
  let ?k = "getCacheKey L (sanitizeInput L q 1000) cs"
  let ?m = "\<lparr>Status = 0, Retries = 0, FromCache = False\<rparr>"
  note gen = GenerateResponse_miss [OF assms(2,3)]
  {
    assume a: "server E 0 = HTTPResponse 429 body_a \<and> server E 1 = HTTPResponse 429 body_b \<and>
          server E 2 = HTTPResponse 200 body_c \<and> parseAIResponse L body_c = Inr answer"
    have "retryLoop L c (server E) ?k 0 ?m None f =
        retryLoop L c (server E) ?k 1 (?m\<lparr>Retries := 0, Status := 429\<rparr>) (Some ErrRateLimit) f"
      using retry_continue_429 [where attempt = 0 and srv = "server E" and body = body_a and c = c]
        a assms(1) by simp
    also have "\<dots> =
        retryLoop L c (server E) ?k 2 (?m\<lparr>Retries := 1, Status := 429\<rparr>) (Some ErrRateLimit) f"
      using retry_continue_429 [where attempt = 1 and srv = "server E" and body = body_b and c = c]
        a assms(1) by simp
    also have "\<dots> = ((answer, None), ?m\<lparr>Retries := 2, Status := 200\<rparr>,
        snd (saveCachedResponse c f ?k answer))"
      using retry_success [where attempt = 2 and srv = "server E" and body = body_c and c = c]
        a assms(1) by simp
    finally show "\<exists>f'. GenerateResponse L c E f q cs =
        Inr ((answer, None), \<lparr>Status = 200, Retries = 2, FromCache = False\<rparr>, f')"
      by (simp add: gen)
  }
  {
    assume a: "server E 0 = HTTPResponse status_a body_a \<and> server E 1 = HTTPResponse status_b body_b \<and>
          server E 2 = HTTPResponse status_c body_c \<and> server E 3 = HTTPResponse status_d body_d \<and>
          500 \<le> status_a \<and> 500 \<le> status_b \<and> 500 \<le> status_c \<and> 500 \<le> status_d"
    have "retryLoop L c (server E) ?k 0 ?m None f =
        retryLoop L c (server E) ?k 1 (?m\<lparr>Retries := 0, Status := status_a\<rparr>) (Some (ErrServer status_a)) f"
      using retry_continue_5xx [where attempt = 0 and srv = "server E" and body = body_a and c = c]
        a assms(1) by simp
    also have "\<dots> =
        retryLoop L c (server E) ?k 2 (?m\<lparr>Retries := 1, Status := status_b\<rparr>) (Some (ErrServer status_b)) f"
      using retry_continue_5xx [where attempt = 1 and srv = "server E" and body = body_b and c = c]
        a assms(1) by simp
    also have "\<dots> =
        retryLoop L c (server E) ?k 3 (?m\<lparr>Retries := 2, Status := status_c\<rparr>) (Some (ErrServer status_c)) f"
      using retry_continue_5xx [where attempt = 2 and srv = "server E" and body = body_c and c = c]
        a assms(1) by simp
    also have "\<dots> =
        (([], Some (ErrServerFinal status_d 4 (take (nat (min_int 200 (int (length body_d)))) body_d))),
         ?m\<lparr>Retries := 3, Status := status_d\<rparr>, f)"
      using retry_final_5xx [where attempt = 3 and srv = "server E" and body = body_d and c = c]
        a assms(1) by simp
    finally show "GenerateResponse L c E f q cs =
        Inr (([], Some (ErrServerFinal status_d 4 (take (nat (min_int 200 (int (length body_d)))) body_d))),
             \<lparr>Status = status_d, Retries = 3, FromCache = False\<rparr>, f)"
      by (simp add: gen)
  }
  {
    assume a: "server E 0 = HTTPResponse status_a body_a \<and> 400 \<le> status_a \<and> status_a < 500 \<and> status_a \<noteq> 429"
    have "retryLoop L c (server E) ?k 0 ?m None f =
        (([], Some (ErrAPI status_a (take (nat (min_int 200 (int (length body_a)))) body_a))),
         ?m\<lparr>Retries := 0, Status := status_a\<rparr>, f)"
      using retry_client_error [where attempt = 0 and srv = "server E" and body = body_a and c = c]
        a assms(1) by simp
    then show "GenerateResponse L c E f q cs =
        Inr (([], Some (ErrAPI status_a (take (nat (min_int 200 (int (length body_a)))) body_a))),
             \<lparr>Status = status_a, Retries = 0, FromCache = False\<rparr>, f)"
      by (simp add: gen)
  }
  {
    assume a: "attempt \<le> maxRetries c \<and> srv attempt = HTTPResponse status_a body_a \<and>
          400 \<le> status_a \<and> status_a < 500 \<and> status_a \<noteq> 429"
    show "retryLoop L c srv k attempt m e f =
        (([], Some (ErrAPI status_a (take (nat (min_int 200 (int (length body_a)))) body_a))),
         m\<lparr>Retries := attempt, Status := status_a\<rparr>, f)"
      using retry_client_error [where attempt = attempt and srv = srv and body = body_a
          and c = c and status = status_a] a
      by simp
  }
qed

theorem retry_policy_witness:
  "(\<exists>f'. GenerateResponse ascii_lib NewAIClient
            \<lparr>marshal_fails = False,
             server = script [HTTPResponse 429 ''slow'', HTTPResponse 429 ''slow'',
                              HTTPResponse 200 ''ok'']\<rparr>
            empty_fs ''q'' [] =
          Inr ((''ok'', None), \<lparr>Status = 200, Retries = 2, FromCache = False\<rparr>, f')) \<and>
   GenerateResponse ascii_lib NewAIClient
     \<lparr>marshal_fails = False,
      server = script [HTTPResponse 500 ''e'', HTTPResponse 500 ''e'', HTTPResponse 500 ''e'',
                       HTTPResponse 500 ''e'']\<rparr>
     empty_fs ''q'' [] =
     Inr (([], Some (ErrServerFinal 500 4 ''e'')),
          \<lparr>Status = 500, Retries = 3, FromCache = False\<rparr>, empty_fs) \<and>
   GenerateResponse ascii_lib NewAIClient
     \<lparr>marshal_fails = False, server = script [HTTPResponse 404 ''no'']\<rparr>
     empty_fs ''q'' [] =
     Inr (([], Some (ErrAPI 404 ''no'')),
          \<lparr>Status = 404, Retries = 0, FromCache = False\<rparr>, empty_fs) \<and>
   retryLoop ascii_lib NewAIClient (script [HTTPResponse 500 ''e'', HTTPResponse 404 ''no''])
     ''0123456789abcdef'' 1 \<lparr>Status = 500, Retries = 0, FromCache = False\<rparr>
     (Some (ErrServer 500)) empty_fs =
     (([], Some (ErrAPI 404 ''no'')), \<lparr>Status = 404, Retries = 1, FromCache = False\<rparr>, empty_fs)"
proof -
  have budget: "maxRetries NewAIClient = 3"
    by (simp add: NewAIClient_def)
  have miss: "getCachedResponse ascii_lib NewAIClient empty_fs
      (getCacheKey ascii_lib (sanitizeInput ascii_lib ''q'' 1000) []) = Inr ([], False)"
    by (simp add: getCachedResponse_def ReadFile_def empty_fs_def)
  have parse: "parseAIResponse ascii_lib ''ok'' = Inr ''ok''"
    by (simp add: parseAIResponse_def ascii_lib_def toy_json_def ascii_TrimSpace_def
        ascii_space_def)
  have a: "\<exists>f'. GenerateResponse ascii_lib NewAIClient
            \<lparr>marshal_fails = False,
             server = script [HTTPResponse 429 ''slow'', HTTPResponse 429 ''slow'',
                              HTTPResponse 200 ''ok'']\<rparr>
            empty_fs ''q'' [] =
          Inr ((''ok'', None), \<lparr>Status = 200, Retries = 2, FromCache = False\<rparr>, f')"
    using retry_policy [OF budget miss, where body_a = "''slow''" and body_b = "''slow''"
        and body_c = "''ok''" and answer = "''ok''" and E = "\<lparr>marshal_fails = False,
             server = script [HTTPResponse 429 ''slow'', HTTPResponse 429 ''slow'',
                              HTTPResponse 200 ''ok'']\<rparr>"] parse
    by (simp add: script_def)
  have b: "GenerateResponse ascii_lib NewAIClient
     \<lparr>marshal_fails = False,
      server = script [HTTPResponse 500 ''e'', HTTPResponse 500 ''e'', HTTPResponse 500 ''e'',
                       HTTPResponse 500 ''e'']\<rparr>
     empty_fs ''q'' [] =
     Inr (([], Some (ErrServerFinal 500 4 ''e'')),
          \<lparr>Status = 500, Retries = 3, FromCache = False\<rparr>, empty_fs)"
    using retry_policy [OF budget miss, where status_a = 500 and status_b = 500 and status_c = 500
        and status_d = 500 and body_a = "''e''" and body_b = "''e''" and body_c = "''e''" and body_d = "''e''"
        and E = "\<lparr>marshal_fails = False,
      server = script [HTTPResponse 500 ''e'', HTTPResponse 500 ''e'', HTTPResponse 500 ''e'',
                       HTTPResponse 500 ''e'']\<rparr>"]
    by (simp add: script_def min_int_def)
  have c: "GenerateResponse ascii_lib NewAIClient
     \<lparr>marshal_fails = False, server = script [HTTPResponse 404 ''no'']\<rparr>
     empty_fs ''q'' [] =
     Inr (([], Some (ErrAPI 404 ''no'')),
          \<lparr>Status = 404, Retries = 0, FromCache = False\<rparr>, empty_fs)"
    using retry_policy [OF budget miss, where status_a = 404 and body_a = "''no''"
        and E = "\<lparr>marshal_fails = False, server = script [HTTPResponse 404 ''no'']\<rparr>"]
    by (simp add: script_def min_int_def)
  have d: "retryLoop ascii_lib NewAIClient
     (script [HTTPResponse 500 ''e'', HTTPResponse 404 ''no''])
     ''0123456789abcdef'' 1 \<lparr>Status = 500, Retries = 0, FromCache = False\<rparr>
     (Some (ErrServer 500)) empty_fs =
     (([], Some (ErrAPI 404 ''no'')), \<lparr>Status = 404, Retries = 1, FromCache = False\<rparr>, empty_fs)"
    using retry_policy [OF budget miss, where status_a = 404 and body_a = "''no''"
        and attempt = 1 and srv = "script [HTTPResponse 500 ''e'', HTTPResponse 404 ''no'']"
        and E = "\<lparr>marshal_fails = False, server = script [HTTPResponse 404 ''no'']\<rparr>"
        and k = "''0123456789abcdef''" and e = "Some (ErrServer 500)"
        and m = "\<lparr>Status = 500, Retries = 0, FromCache = False\<rparr>"]
    by (simp add: script_def min_int_def NewAIClient_def)
  from a b c d show ?thesis by blast
qed

text \<open>A fingerprint has 32 bytes, so the cache lookup of \<open>GenerateResponse\<close> never panics.\<close>

lemma GenerateResponse_no_panic: "GenerateResponse L c E f q cs \<noteq> Inl p"
  by (simp add: GenerateResponse_def Let_def getCachedResponse_def length_getCacheKey
      split: option.splits sum.splits prod.splits)

lemma getCachedResponse_write_fails:
  "getCachedResponse L c (f\<lparr>write_fails := W\<rparr>) k = getCachedResponse L c f k"
  by (simp add: getCachedResponse_def ReadFile_def)

text \<open>
  The returned pair and the metrics of the retry loop do not depend on which cache writes
  fail: the file system is touched only by the write after a successful answer, whose
  error is dropped.
\<close>

lemma retryLoop_write_fails:
  "fst (retryLoop L c srv k a m e (f\<lparr>write_fails := W\<rparr>)) = fst (retryLoop L c srv k a m e f) \<and>
   fst (snd (retryLoop L c srv k a m e (f\<lparr>write_fails := W\<rparr>))) =
     fst (snd (retryLoop L c srv k a m e f))"
proof (induction L c srv k a m e f rule: retryLoop.induct)
  case (1 L c srv k a m e f)
  show ?case
    using "1.IH"
    by (simp only: retryLoop.simps [of L c srv k a m e f]
          retryLoop.simps [of L c srv k a m e "f\<lparr>write_fails := W\<rparr>"])
       (auto simp: Let_def split_beta split: attempt_outcome.splits sum.splits)
qed

text \<open>
  C9. When an attempt receives HTTP 200 with a parseable, non-empty answer and the write
  of that answer to the cache fails, the retry loop still returns the answer with a
  \<^verbatim>\<open>nil\<close> error (the file system is left as it was). More generally, whatever pattern \<open>W\<close>
  of failing cache writes is in force, a generation call that returns an answer returns
  the same answer and metrics.
\<close>

theorem cache_write_failure_swallowed:
  "(attempt \<le> maxRetries c \<and> srv attempt = HTTPResponse 200 body \<and>
    parseAIResponse L body = Inr answer \<and> write_fails f (cacheFile c k) \<longrightarrow>
      retryLoop L c srv k attempt m e f =
        ((answer, None), m\<lparr>Retries := attempt, Status := 200\<rparr>, f)) \<and>
   (GenerateResponse L c E f q cs = Inr ((answer, None), m', f') \<longrightarrow>
      (\<exists>f''. GenerateResponse L c E (f\<lparr>write_fails := W\<rparr>) q cs =
               Inr ((answer, None), m', f'')))"
proof (intro conjI impI)
  assume a: "attempt \<le> maxRetries c \<and> srv attempt = HTTPResponse 200 body \<and>
    parseAIResponse L body = Inr answer \<and> write_fails f (cacheFile c k)"
  then have "snd (saveCachedResponse c f k answer) = f"
    by (simp add: saveCachedResponse_def WriteFile_def)
  with a show "retryLoop L c srv k attempt m e f =
      ((answer, None), m\<lparr>Retries := attempt, Status := 200\<rparr>, f)"
    using retry_success [where attempt = attempt and srv = srv and body = body and c = c
        and L = L and answer = answer and k = k and m = m and e = e and f = f]
    by simp
next
  assume a: "GenerateResponse L c E f q cs = Inr ((answer, None), m', f')"
  let ?k = "getCacheKey L (sanitizeInput L q 1000) cs"
  let ?m = "\<lparr>Status = 0, Retries = 0, FromCache = False\<rparr>"
  obtain r2 m2 f2 where
    r2: "retryLoop L c (server E) ?k 0 ?m None (f\<lparr>write_fails := W\<rparr>) = (r2, m2, f2)"
    by (cases "retryLoop L c (server E) ?k 0 ?m None (f\<lparr>write_fails := W\<rparr>)") auto
  with retryLoop_write_fails [where L = L and c = c and srv = "server E" and k = ?k and a = 0
      and m = ?m and e = None and f = f and W = W]
  have eq: "fst (retryLoop L c (server E) ?k 0 ?m None f) = r2"
    "fst (snd (retryLoop L c (server E) ?k 0 ?m None f)) = m2"
    by simp_all
  show "\<exists>f''. GenerateResponse L c E (f\<lparr>write_fails := W\<rparr>) q cs = Inr ((answer, None), m', f'')"
    using a eq r2
    by (auto simp: GenerateResponse_def Let_def getCachedResponse_write_fails
        split: sum.splits prod.splits if_splits)
qed

theorem cache_write_failure_swallowed_witness:
  "GenerateResponse ascii_lib NewAIClient
     \<lparr>marshal_fails = False, server = script [HTTPResponse 200 ''ok'']\<rparr>
     (empty_fs\<lparr>write_fails := (\<lambda>path. True)\<rparr>) ''q'' [] =
     Inr ((''ok'', None), \<lparr>Status = 200, Retries = 0, FromCache = False\<rparr>,
          empty_fs\<lparr>write_fails := (\<lambda>path. True)\<rparr>) \<and>
   fst (saveCachedResponse NewAIClient (empty_fs\<lparr>write_fails := (\<lambda>path. True)\<rparr>)
          (getCacheKey ascii_lib (sanitizeInput ascii_lib ''q'' 1000) []) ''ok'') = Some WriteError \<and>
   GenerateResponse ascii_lib NewAIClient
     \<lparr>marshal_fails = False, server = script [HTTPResponse 200 ''ok'']\<rparr> empty_fs ''q'' [] =
     Inr ((''ok'', None), \<lparr>Status = 200, Retries = 0, FromCache = False\<rparr>,
          snd (saveCachedResponse NewAIClient empty_fs
                 (getCacheKey ascii_lib (sanitizeInput ascii_lib ''q'' 1000) []) ''ok'')) \<and>
   (\<exists>f''. GenerateResponse ascii_lib NewAIClient
            \<lparr>marshal_fails = False, server = script [HTTPResponse 200 ''ok'']\<rparr>
            (empty_fs\<lparr>write_fails := (\<lambda>path. True)\<rparr>) ''q'' [] =
          Inr ((''ok'', None), \<lparr>Status = 200, Retries = 0, FromCache = False\<rparr>, f''))"
proof -
  let ?f = "empty_fs\<lparr>write_fails := (\<lambda>path. True)\<rparr>"
  let ?k = "getCacheKey ascii_lib (sanitizeInput ascii_lib ''q'' 1000) []"
  have parse: "parseAIResponse ascii_lib ''ok'' = Inr ''ok''"
    by (simp add: parseAIResponse_def ascii_lib_def toy_json_def ascii_TrimSpace_def
        ascii_space_def)
  have miss: "getCachedResponse ascii_lib NewAIClient ?f ?k = Inr ([], False)"
    by (simp add: getCachedResponse_def ReadFile_def empty_fs_def)
  have loop: "retryLoop ascii_lib NewAIClient (script [HTTPResponse 200 ''ok'']) ?k 0
      \<lparr>Status = 0, Retries = 0, FromCache = False\<rparr> None ?f =
      ((''ok'', None), \<lparr>Status = 200, Retries = 0, FromCache = False\<rparr>, ?f)"
    using cache_write_failure_swallowed [where attempt = 0 and c = NewAIClient
        and srv = "script [HTTPResponse 200 ''ok'']" and body = "''ok''" and L = ascii_lib
        and answer = "''ok''" and f = ?f and k = ?k
        and m = "\<lparr>Status = 0, Retries = 0, FromCache = False\<rparr>" and e = None] parse
    by (simp add: script_def NewAIClient_def)
  have "GenerateResponse ascii_lib NewAIClient
     \<lparr>marshal_fails = False, server = script [HTTPResponse 200 ''ok'']\<rparr> ?f ''q'' [] =
     Inr ((''ok'', None), \<lparr>Status = 200, Retries = 0, FromCache = False\<rparr>, ?f)"
    using miss loop by (simp add: GenerateResponse_def Let_def)
  moreover have "fst (saveCachedResponse NewAIClient ?f ?k ''ok'') = Some WriteError"
    by (simp add: saveCachedResponse_def WriteFile_def)
  moreover have ok: "GenerateResponse ascii_lib NewAIClient
     \<lparr>marshal_fails = False, server = script [HTTPResponse 200 ''ok'']\<rparr> empty_fs ''q'' [] =
     Inr ((''ok'', None), \<lparr>Status = 200, Retries = 0, FromCache = False\<rparr>,
          snd (saveCachedResponse NewAIClient empty_fs ?k ''ok''))"
  proof -
    have "getCachedResponse ascii_lib NewAIClient empty_fs ?k = Inr ([], False)"
      by (simp add: getCachedResponse_def ReadFile_def empty_fs_def)
    moreover have "retryLoop ascii_lib NewAIClient (script [HTTPResponse 200 ''ok'']) ?k 0
        \<lparr>Status = 0, Retries = 0, FromCache = False\<rparr> None empty_fs =
        ((''ok'', None), \<lparr>Status = 200, Retries = 0, FromCache = False\<rparr>,
         snd (saveCachedResponse NewAIClient empty_fs ?k ''ok''))"
      using retry_success [where attempt = 0 and c = NewAIClient
          and srv = "script [HTTPResponse 200 ''ok'']" and body = "''ok''" and L = ascii_lib
          and answer = "''ok''"] parse
      by (simp add: script_def NewAIClient_def)
    ultimately show ?thesis by (simp add: GenerateResponse_def Let_def)
  qed
  moreover have "\<exists>f''. GenerateResponse ascii_lib NewAIClient
            \<lparr>marshal_fails = False, server = script [HTTPResponse 200 ''ok'']\<rparr>
            (empty_fs\<lparr>write_fails := (\<lambda>path. True)\<rparr>) ''q'' [] =
          Inr ((''ok'', None), \<lparr>Status = 200, Retries = 0, FromCache = False\<rparr>, f'')"
    using cache_write_failure_swallowed [THEN conjunct2, rule_format, OF ok] by blast
  ultimately show ?thesis by simp
qed

end
